theory Spec2Isabelle
  imports Complex_Main "HOL-Library.Word"
begin

section \<open>Scalars, points and colours\<close>

text \<open>
  A C++ \<open>float\<close> or \<open>double\<close> is modelled by the value it denotes: a finite real,
  one of the two infinities, or NaN. Comparisons follow IEEE 754 (every comparison with
  NaN is false). \<open>float_mul\<close> and \<open>float_add\<close> are exact on finite values; where the
  node narrows a value to single precision (lines 37 and 206) the rounding is applied
  explicitly with \<open>to_float\<close> and \<open>to_double\<close> below.
\<close>

datatype float = Finite real | Infinity bool | NaN

text \<open>\<open>Infinity True\<close> is the negative infinity.\<close>

fun float_less :: "float \<Rightarrow> float \<Rightarrow> bool" where
  "float_less NaN _ = False"
| "float_less _ NaN = False"
| "float_less (Finite a) (Finite b) = (a < b)"
| "float_less (Finite a) (Infinity neg) = (\<not> neg)"
| "float_less (Infinity neg) (Finite b) = neg"
| "float_less (Infinity n1) (Infinity n2) = (n1 \<and> \<not> n2)"

text \<open>\<open>a > b\<close> in the source is \<open>b < a\<close>.\<close>

definition float_greater :: "float \<Rightarrow> float \<Rightarrow> bool" where
  "float_greater a b = float_less b a"

fun float_abs :: "float \<Rightarrow> float" where
  "float_abs (Finite a) = Finite \<bar>a\<bar>"
| "float_abs (Infinity _) = Infinity False"
| "float_abs NaN = NaN"

fun float_mul :: "float \<Rightarrow> float \<Rightarrow> float" where
  "float_mul NaN _ = NaN"
| "float_mul _ NaN = NaN"
| "float_mul (Finite a) (Finite b) = Finite (a * b)"
| "float_mul (Finite a) (Infinity neg) =
     (if a = 0 then NaN else Infinity ((a < 0) \<noteq> neg))"
| "float_mul (Infinity neg) (Finite b) =
     (if b = 0 then NaN else Infinity (neg \<noteq> (b < 0)))"
| "float_mul (Infinity n1) (Infinity n2) = Infinity (n1 \<noteq> n2)"

fun float_add :: "float \<Rightarrow> float \<Rightarrow> float" where
  "float_add NaN _ = NaN"
| "float_add _ NaN = NaN"
| "float_add (Finite a) (Finite b) = Finite (a + b)"
| "float_add (Finite a) (Infinity neg) = Infinity neg"
| "float_add (Infinity neg) (Finite b) = Infinity neg"
| "float_add (Infinity n1) (Infinity n2) = (if n1 = n2 then Infinity n1 else NaN)"

fun isfinite :: "float \<Rightarrow> bool" where
  "isfinite (Finite _) = True"
| "isfinite _ = False"

subsection \<open>Rounding to a binary format\<close>

text \<open>
  Rounding to nearest, ties to even, as the conversions of C++ do it on IEEE 754
  hardware. A format is given by its precision in bits, the smallest unit in the last
  place (that of the subnormal numbers) and the bound from which a rounded magnitude
  overflows to infinity. \<open>max_shift\<close> bounds the number of scaling steps: more are
  never needed inside the range of the format.
\<close>

record binary_format =
  precision :: nat
  min_ulp :: real
  overflow :: real
  max_shift :: nat

definition binary32 :: binary_format where
  "binary32 = \<lparr>precision = 24, min_ulp = 1 / 2 ^ 149, overflow = 2 ^ 128, max_shift = 150\<rparr>"

definition binary64 :: binary_format where
  "binary64 =
     \<lparr>precision = 53, min_ulp = 1 / 2 ^ 1074, overflow = 2 ^ 1024, max_shift = 1075\<rparr>"

definition round_half_even :: "real \<Rightarrow> int" where
  "round_half_even y =
     (let f = \<lfloor>y\<rfloor>; r = y - of_int f
      in if r < 1 / 2 then f else if 1 / 2 < r then f + 1 else if even f then f else f + 1)"

text \<open>
  \<open>scale n fmt y u\<close> keeps \<open>y * u\<close> and moves \<open>y\<close> into the range of a significand
  of the format, \<open>2 ^ (precision - 1) \<le> y < 2 ^ precision\<close>, or stops at the smallest
  unit in the last place.
\<close>

fun scale :: "nat \<Rightarrow> binary_format \<Rightarrow> real \<Rightarrow> real \<Rightarrow> real \<times> real" where
  "scale n fmt y u =
     (if n = 0 then (y, u)
      else if 2 ^ precision fmt \<le> y then scale (n - 1) fmt (y / 2) (2 * u)
      else if y < 2 ^ (precision fmt - 1) \<and> min_ulp fmt < u
        then scale (n - 1) fmt (2 * y) (u / 2)
      else (y, u))"

declare scale.simps [simp del]

definition round_real :: "binary_format \<Rightarrow> real \<Rightarrow> float" where
  "round_real fmt x =
     (if x = 0 then Finite 0
      else case scale (max_shift fmt) fmt \<bar>x\<bar> 1 of
        (y, u) \<Rightarrow>
          (let r = of_int (round_half_even y) * u
           in if overflow fmt \<le> r then Infinity (x < 0)
              else Finite (if x < 0 then - r else r)))"

fun round_to :: "binary_format \<Rightarrow> float \<Rightarrow> float" where
  "round_to fmt (Finite x) = round_real fmt x"
| "round_to fmt (Infinity neg) = Infinity neg"
| "round_to fmt NaN = NaN"

text \<open>The value as a \<open>float\<close> and as a \<open>double\<close>.\<close>

definition to_float :: "float \<Rightarrow> float" where
  "to_float = round_to binary32"

definition to_double :: "float \<Rightarrow> float" where
  "to_double = round_to binary64"

text \<open>
  A decimal literal of the source is a \<open>double\<close>; stored in a \<open>float\<close> it is rounded
  a second time.
\<close>

definition float_of_literal :: "real \<Rightarrow> float" where
  "float_of_literal x = to_float (to_double (Finite x))"

subsection \<open>Points and colours\<close>

text \<open>\<open>Point\<close> is a vector of three floats; \<open>Color\<close> holds four bytes.\<close>

type_synonym Point = "float \<times> float \<times> float"

record Color =
  color_r :: "8 word"
  color_g :: "8 word"
  color_b :: "8 word"
  color_a :: "8 word"

text \<open>The two PCL point types the node publishes and reads.\<close>

record PointXYZI =
  xyzi_x :: float
  xyzi_y :: float
  xyzi_z :: float
  intensity :: float

record PointXYZRGB =
  rgb_x :: float
  rgb_y :: float
  rgb_z :: float
  rgb_r :: "8 word"
  rgb_g :: "8 word"
  rgb_b :: "8 word"
  rgb_a :: "8 word"

text \<open>
  A default-constructed \<open>pcl::PointXYZRGB\<close>, before the source assigns its coordinates
  and colour channels. The source never assigns the alpha byte of an output point.
\<close>

definition PointXYZRGB_default :: PointXYZRGB where
  "PointXYZRGB_default =
     \<lparr>rgb_x = Finite 0, rgb_y = Finite 0, rgb_z = Finite 0,
      rgb_r = 0, rgb_g = 0, rgb_b = 0, rgb_a = 255\<rparr>"

definition PointXYZI_default :: PointXYZI where
  "PointXYZI_default =
     \<lparr>xyzi_x = Finite 0, xyzi_y = Finite 0, xyzi_z = Finite 0, intensity = Finite 0\<rparr>"

section \<open>The volumetric store\<close>

text \<open>
  \<open>voxblox/core/tsdf_map.h\<close> is not part of the sources at hand; the store, its blocks
  and voxels follow the specification's data model (sections 3 and 4.1). A voxel index
  is a triple of loop counters that run from 0 up to the side count, so its components
  are natural numbers; a block index is a triple of integers.
\<close>

type_synonym VoxelIndex = "nat \<times> nat \<times> nat"
type_synonym BlockIndex = "int \<times> int \<times> int"

text \<open>
  Modelled from the spec: the type \<open>TsdfVoxel\<close> is declared outside the sources at
  hand. A Voxel holds a signed distance, a non-negative weight and a four-channel colour;
  the node reads the members \<open>distance\<close>, \<open>weight\<close> and \<open>color\<close>.
\<close>

record TsdfVoxel =
  distance :: float
  weight :: float
  color :: Color

text \<open>
  Modelled from the spec: the type \<open>TsdfBlock\<close> is declared outside the sources at
  hand. A Block owns a dense cube of voxels addressed by local voxel index and knows its
  origin and the voxel edge length. The node reads only indices inside the cube.
\<close>

record TsdfBlock =
  origin :: Point
  block_voxel_size :: float
  voxels :: "VoxelIndex \<Rightarrow> TsdfVoxel"

text \<open>
  Modelled from the spec: \<open>TsdfBlock::getTsdfVoxelByVoxelIndex\<close> is defined outside
  the sources at hand. It is the Block's voxel lookup by local voxel index.
\<close>

definition getTsdfVoxelByVoxelIndex :: "TsdfBlock \<Rightarrow> VoxelIndex \<Rightarrow> TsdfVoxel" where
  "getTsdfVoxelByVoxelIndex block voxel_index = voxels block voxel_index"

text \<open>
  Modelled from the spec: \<open>TsdfBlock::getCoordinatesOfTsdfVoxelByVoxelIndex\<close> is defined
  outside the sources at hand. It reconstructs the world coordinate of a voxel as
  \<open>world_coord = block_origin + voxel_index * voxel_size\<close>, in each of the three
  components.
\<close>

fun getCoordinatesOfTsdfVoxelByVoxelIndex :: "TsdfBlock \<Rightarrow> VoxelIndex \<Rightarrow> Point" where
  "getCoordinatesOfTsdfVoxelByVoxelIndex block (ix, iy, iz) =
     (case origin block of (ox, oy, oz) \<Rightarrow>
        (float_add ox (float_mul (Finite (real ix)) (block_voxel_size block)),
         float_add oy (float_mul (Finite (real iy)) (block_voxel_size block)),
         float_add oz (float_mul (Finite (real iz)) (block_voxel_size block))))"

text \<open>
  Modelled from the spec: the class \<open>TsdfMap\<close> is declared outside the sources at hand.
  The Store holds the two Store-wide constants and a mapping from block coordinate to
  Block. The mapping is an association list; its order stands for the container's
  enumeration order, which is fixed as long as the Store is not mutated. The keys of the
  Store are unique: \<open>distinct (map fst (block_map m))\<close>.
\<close>

record TsdfMap =
  tsdf_voxel_size :: float
  tsdf_voxels_per_side :: nat
  block_map :: "(BlockIndex \<times> TsdfBlock) list"

text \<open>
  Modelled from the spec: the accessors of \<open>TsdfMap\<close> are defined outside the sources at
  hand. They return the two Store-wide constants, the derived constant voxels-per-block
  (\<open>voxels_per_side^3\<close>), the number of allocated blocks and the coordinates of all
  allocated blocks.
\<close>

definition getTsdfVoxelSize :: "TsdfMap \<Rightarrow> float" where
  "getTsdfVoxelSize m = tsdf_voxel_size m"

definition getTsdfVoxelsPerSide :: "TsdfMap \<Rightarrow> nat" where
  "getTsdfVoxelsPerSide m = tsdf_voxels_per_side m"

definition getTsdfVoxelsPerBlock :: "TsdfMap \<Rightarrow> nat" where
  "getTsdfVoxelsPerBlock m = tsdf_voxels_per_side m ^ 3"

definition getNumberOfAllocatedBlocks :: "TsdfMap \<Rightarrow> nat" where
  "getNumberOfAllocatedBlocks m = length (block_map m)"

definition getAllAllocatedBlocks :: "TsdfMap \<Rightarrow> BlockIndex list" where
  "getAllAllocatedBlocks m = map fst (block_map m)"

text \<open>
  Modelled from the spec: \<open>TsdfMap::getBlockByIndex\<close> is defined outside the sources at
  hand. \<open>get_block\<close> is a read-only lookup that returns nothing for an unallocated
  coordinate. The node binds the result to a reference, so it has no way to continue
  without a block: \<open>None\<close> is a fatal outcome of the caller.
\<close>

definition getBlockByIndex :: "TsdfMap \<Rightarrow> BlockIndex \<Rightarrow> TsdfBlock option" where
  "getBlockByIndex m index = map_of (block_map m) index"

text \<open>
  Modelled from the spec: the constructor of \<open>TsdfMap\<close> and its \<open>Config\<close> are
  defined outside the sources at hand. The Store is created with a fixed voxel size and
  side count and allocates blocks lazily: a freshly constructed Store has no blocks.
\<close>

record TsdfMap_Config =
  config_tsdf_voxel_size :: float
  config_tsdf_voxels_per_side :: nat

definition TsdfMap_new :: "TsdfMap_Config \<Rightarrow> TsdfMap" where
  "TsdfMap_new config =
     \<lparr>tsdf_voxel_size = config_tsdf_voxel_size config,
      tsdf_voxels_per_side = config_tsdf_voxels_per_side config,
      block_map = []\<rparr>"

section \<open>The traversal shared by both extraction functions\<close>

text \<open>
  \<open>publishAllUpdatedTsdfVoxels\<close> (lines 153-181) and \<open>publishTsdfSurfacePoints\<close>
  (lines 210-241) run the same loop nest: over the list of allocated block indices, and
  for each block over \<open>x\<close>, \<open>y\<close>, \<open>z\<close> from \<open>0\<close> up to the side count. Only the
  innermost body differs; it is a parameter here. The body receives the block index, the
  block, the voxel index and the point cloud built so far, and returns the point cloud
  after its conditional \<open>push_back\<close>.
\<close>

function for_z ::
  "nat \<Rightarrow> (VoxelIndex \<Rightarrow> 'p list \<Rightarrow> 'p list) \<Rightarrow> nat \<Rightarrow> nat \<Rightarrow> nat \<Rightarrow> 'p list \<Rightarrow> 'p list" where
  "for_z vps body ix iy iz pointcloud =
     (if iz < vps then for_z vps body ix iy (iz + 1) (body (ix, iy, iz) pointcloud)
      else pointcloud)"
  by pat_completeness auto
termination
  by (relation "measure (\<lambda>(vps, body, ix, iy, iz, pointcloud). vps - iz)") auto

declare for_z.simps [simp del]

function for_y ::
  "nat \<Rightarrow> (VoxelIndex \<Rightarrow> 'p list \<Rightarrow> 'p list) \<Rightarrow> nat \<Rightarrow> nat \<Rightarrow> 'p list \<Rightarrow> 'p list" where
  "for_y vps body ix iy pointcloud =
     (if iy < vps then for_y vps body ix (iy + 1) (for_z vps body ix iy 0 pointcloud)
      else pointcloud)"
  by pat_completeness auto
termination
  by (relation "measure (\<lambda>(vps, body, ix, iy, pointcloud). vps - iy)") auto

declare for_y.simps [simp del]

function for_x ::
  "nat \<Rightarrow> (VoxelIndex \<Rightarrow> 'p list \<Rightarrow> 'p list) \<Rightarrow> nat \<Rightarrow> 'p list \<Rightarrow> 'p list" where
  "for_x vps body ix pointcloud =
     (if ix < vps then for_x vps body (ix + 1) (for_y vps body ix 0 pointcloud)
      else pointcloud)"
  by pat_completeness auto
termination
  by (relation "measure (\<lambda>(vps, body, ix, pointcloud). vps - ix)") auto

declare for_x.simps [simp del]

fun for_blocks ::
  "TsdfMap \<Rightarrow> (BlockIndex \<Rightarrow> TsdfBlock \<Rightarrow> VoxelIndex \<Rightarrow> 'p list \<Rightarrow> 'p list) \<Rightarrow>
   BlockIndex list \<Rightarrow> 'p list \<Rightarrow> 'p list option" where
  "for_blocks m body [] pointcloud = Some pointcloud"
| "for_blocks m body (index # blocks) pointcloud =
     (case getBlockByIndex m index of
        None \<Rightarrow> None
      | Some block \<Rightarrow>
          for_blocks m body blocks
            (for_x (getTsdfVoxelsPerSide m) (body index block) 0 pointcloud))"

text \<open>The whole pass: list the allocated blocks, then visit them in that order.\<close>

definition for_all_voxels ::
  "TsdfMap \<Rightarrow> (BlockIndex \<Rightarrow> TsdfBlock \<Rightarrow> VoxelIndex \<Rightarrow> 'p list \<Rightarrow> 'p list) \<Rightarrow>
   'p list option" where
  "for_all_voxels m body = for_blocks m body (getAllAllocatedBlocks m) []"

subsection \<open>The two loop bodies\<close>

text \<open>Lines 161-177: the body of the dense distance extraction.\<close>

definition distance_body ::
  "BlockIndex \<Rightarrow> TsdfBlock \<Rightarrow> VoxelIndex \<Rightarrow> PointXYZI list \<Rightarrow> PointXYZI list" where
  "distance_body index block voxel_index pointcloud =
     (let voxel = getTsdfVoxelByVoxelIndex block voxel_index;
          distance' = distance voxel;
          weight' = weight voxel;
          coord = getCoordinatesOfTsdfVoxelByVoxelIndex block voxel_index
      in if float_greater weight' (Finite 0)
         then pointcloud @
                [PointXYZI_default\<lparr>xyzi_x := fst coord, xyzi_y := fst (snd coord),
                   xyzi_z := snd (snd coord), intensity := distance'\<rparr>]
         else pointcloud)"

text \<open>
  Line 206: the threshold of the surface extraction, the voxel size times 0.75. The
  source multiplies in double precision and stores the product in a \<open>const float\<close>.
\<close>

definition surface_distance_thresh :: "TsdfMap \<Rightarrow> float" where
  "surface_distance_thresh m =
     to_float (to_double (float_mul (getTsdfVoxelSize m) (Finite 0.75)))"

text \<open>Lines 218-237: the body of the surface extraction.\<close>

definition surface_body ::
  "float \<Rightarrow> BlockIndex \<Rightarrow> TsdfBlock \<Rightarrow> VoxelIndex \<Rightarrow> PointXYZRGB list \<Rightarrow> PointXYZRGB list" where
  "surface_body thresh index block voxel_index pointcloud =
     (let voxel = getTsdfVoxelByVoxelIndex block voxel_index;
          distance' = distance voxel;
          weight' = weight voxel;
          color' = color voxel;
          coord = getCoordinatesOfTsdfVoxelByVoxelIndex block voxel_index
      in if float_less (float_abs distance') thresh \<and> float_greater weight' (Finite 0)
         then pointcloud @
                [PointXYZRGB_default\<lparr>rgb_x := fst coord, rgb_y := fst (snd coord),
                   rgb_z := snd (snd coord), rgb_r := color_r color',
                   rgb_g := color_g color', rgb_b := color_b color'\<rparr>]
         else pointcloud)"

text \<open>The point clouds the two functions build before publishing them.\<close>

definition publishAllUpdatedTsdfVoxels_pointcloud :: "TsdfMap \<Rightarrow> PointXYZI list option" where
  "publishAllUpdatedTsdfVoxels_pointcloud m = for_all_voxels m distance_body"

definition publishTsdfSurfacePoints_pointcloud :: "TsdfMap \<Rightarrow> PointXYZRGB list option" where
  "publishTsdfSurfacePoints_pointcloud m =
     for_all_voxels m (surface_body (surface_distance_thresh m))"

section \<open>Messages, collaborators and the node\<close>

text \<open>\<open>ros::Time\<close>; \<open>ros::Time(0)\<close> asks the transform listener for the latest transform.\<close>

type_synonym Time = nat

record Header =
  frame_id :: string
  stamp :: Time

record PointField =
  field_name :: string
  field_offset :: "32 word"
  field_datatype :: "8 word"
  field_count :: "32 word"

definition FLOAT32 :: "8 word" where
  "FLOAT32 = 7"

record PointCloud2 =
  header :: Header
  height :: "32 word"
  width :: "32 word"
  msg_fields :: "PointField list"
  is_bigendian :: bool
  point_step :: "32 word"
  row_step :: "32 word"
  data :: "8 word list"
  is_dense :: bool

text \<open>
  A \<open>pcl::PointCloud\<close>: the frame identifier of its header, its points and the flag
  \<open>is_dense\<close>, which says that no point has a non-finite coordinate. A
  default-constructed cloud has the flag set, and \<open>push_back\<close> leaves it.
\<close>

record 'p PointCloud =
  cloud_frame_id :: string
  points :: "'p list"
  cloud_is_dense :: bool

text \<open>
  What the node calls but does not define: the transform listener, the conversion of a
  transform, the decoding of a message into a PCL point cloud and the integrator.
  \<open>tf_lookupTransform\<close> returns \<open>Inl what\<close> where
  \<open>tf::TransformListener::lookupTransform\<close> throws a \<open>tf::TransformException\<close>.
  The integrator mutates the map it shares with the node; here it returns the new map.
\<close>

record ('tf, 'T) collaborators =
  canTransform :: "string \<Rightarrow> string \<Rightarrow> Time \<Rightarrow> bool"
  tf_lookupTransform :: "string \<Rightarrow> string \<Rightarrow> Time \<Rightarrow> string + 'tf"
  transformTFToKindr :: "'tf \<Rightarrow> 'T"
  fromROSMsg :: "PointCloud2 \<Rightarrow> PointXYZRGB PointCloud"
  integratePointCloud :: "'T \<Rightarrow> Point list \<Rightarrow> Color list \<Rightarrow> TsdfMap \<Rightarrow> TsdfMap"

text \<open>
  \<open>pcl::removeNaNFromPointCloud\<close> belongs to the PCL library. It trusts the flag of
  its input: a cloud flagged dense is copied as it is, without a test of its points. From
  any other cloud it drops the points with a non-finite \<open>x\<close>, \<open>y\<close> or \<open>z\<close> and
  flags the result dense. The node never reads the index vector it also fills.
\<close>

definition removeNaNFromPointCloud :: "PointXYZRGB PointCloud \<Rightarrow> PointXYZRGB PointCloud" where
  "removeNaNFromPointCloud cloud_in =
     (if cloud_is_dense cloud_in then cloud_in
      else cloud_in\<lparr>points :=
                      filter (\<lambda>p. isfinite (rgb_x p) \<and> isfinite (rgb_y p) \<and> isfinite (rgb_z p))
                        (points cloud_in),
                    cloud_is_dense := True\<rparr>)"

text \<open>
  The effects of the node on its collaborators, in the order they happen: log lines,
  calls of the integrator and messages handed to the publisher \<open>sdf_pointcloud_pub_\<close>.
\<close>

datatype 'T event =
    ROS_WARN string
  | ROS_ERROR string
  | ROS_INFO string nat
  | LOG_INFO string
  | Integrate 'T "Point list" "Color list"
  | Publish_XYZI "PointXYZI PointCloud"
  | Publish_XYZRGB "PointXYZRGB PointCloud"

text \<open>
  The members of \<open>VoxbloxNode\<close> that the functions below read or write. The map is
  allocated in the constructor before any other member function runs.
\<close>

record 'T node =
  world_frame :: string
  tsdf_map :: TsdfMap
  events :: "'T event list"

subsection \<open>publishAllUpdatedTsdfVoxels and publishTsdfSurfacePoints\<close>

definition publishAllUpdatedTsdfVoxels :: "'T node \<Rightarrow> 'T node option" where
  "publishAllUpdatedTsdfVoxels node =
     (case publishAllUpdatedTsdfVoxels_pointcloud (tsdf_map node) of
        None \<Rightarrow> None
      | Some pointcloud \<Rightarrow>
          Some (node\<lparr>events := events node @
                  [Publish_XYZI \<lparr>cloud_frame_id = world_frame node, points = pointcloud,
                     cloud_is_dense = True\<rparr>]\<rparr>))"

definition publishTsdfSurfacePoints :: "'T node \<Rightarrow> 'T node option" where
  "publishTsdfSurfacePoints node =
     (case publishTsdfSurfacePoints_pointcloud (tsdf_map node) of
        None \<Rightarrow> None
      | Some pointcloud \<Rightarrow>
          Some (node\<lparr>events := events node @
                  [Publish_XYZRGB \<lparr>cloud_frame_id = world_frame node, points = pointcloud,
                     cloud_is_dense = True\<rparr>]\<rparr>))"

subsection \<open>lookupTransform\<close>

text \<open>
  Lines 248-276. The result is the log lines written and the transform, \<open>None\<close> where
  the source returns \<open>false\<close>.
\<close>

definition lookupTransform ::
  "('tf, 'T) collaborators \<Rightarrow> string \<Rightarrow> string \<Rightarrow> Time \<Rightarrow> 'T event list \<times> 'T option" where
  "lookupTransform ext from_frame to_frame timestamp =
     (let (time_to_lookup, logged) =
            (if \<not> canTransform ext to_frame from_frame timestamp
             then (0, [ROS_WARN ''Using latest TF transform instead of timestamp match.''])
             else (timestamp, []))
      in case tf_lookupTransform ext to_frame from_frame time_to_lookup of
           Inl what \<Rightarrow>
             (logged @ [ROS_ERROR (''Error getting TF transform from sensor data: '' @ what)],
              None)
         | Inr tf_transform \<Rightarrow> (logged, Some (transformTFToKindr ext tf_transform)))"

subsection \<open>insertPointcloudWithTf\<close>

text \<open>Lines 91-96: the loop over the fields of the incoming message.\<close>

function fix_rgb_fields ::
  "nat \<Rightarrow> PointField list \<Rightarrow> 'T event list \<Rightarrow> PointField list \<times> 'T event list" where
  "fix_rgb_fields d fs logged =
     (if d < length fs
      then fix_rgb_fields (d + 1)
             (if field_name (fs ! d) = ''rgb''
              then fs[d := (fs ! d)\<lparr>field_datatype := FLOAT32\<rparr>] else fs)
             (logged @ [LOG_INFO (''Got field named: '' @ field_name (fs ! d))])
      else (fs, logged))"
  by pat_completeness auto
termination
  by (relation "measure (\<lambda>(d, fs, logged). length fs - d)") auto

declare fix_rgb_fields.simps [simp del]

text \<open>Lines 110-117: the loop that fills \<open>points_C\<close> and \<open>colors\<close>.\<close>

function convert_points ::
  "nat \<Rightarrow> PointXYZRGB list \<Rightarrow> Point list \<Rightarrow> Color list \<Rightarrow> Point list \<times> Color list" where
  "convert_points i pts points_C colors =
     (if i < length pts
      then convert_points (i + 1) pts
             (points_C @ [(rgb_x (pts ! i), rgb_y (pts ! i), rgb_z (pts ! i))])
             (colors @ [\<lparr>color_r = rgb_r (pts ! i), color_g = rgb_g (pts ! i),
                         color_b = rgb_b (pts ! i), color_a = rgb_a (pts ! i)\<rparr>])
      else (points_C, colors))"
  by pat_completeness auto
termination
  by (relation "measure (\<lambda>(i, pts, points_C, colors). length pts - i)") auto

declare convert_points.simps [simp del]

text \<open>
  Lines 82-130. The message is reached through a shared pointer, so the caller sees what
  the function writes into it: the message is returned with the node. \<open>None\<close> is a
  fatal outcome.
\<close>

definition insertPointcloudWithTf ::
  "('tf, 'T) collaborators \<Rightarrow> 'T node \<Rightarrow> PointCloud2 \<Rightarrow> ('T node \<times> PointCloud2) option" where
  "insertPointcloudWithTf ext node pointcloud_msg =
     (case lookupTransform ext (frame_id (header pointcloud_msg)) (world_frame node)
             (stamp (header pointcloud_msg)) of
        (logged, None) \<Rightarrow> Some (node\<lparr>events := events node @ logged\<rparr>, pointcloud_msg)
      | (logged, Some T_G_C) \<Rightarrow>
          (let (fields', field_log) = fix_rgb_fields 0 (msg_fields pointcloud_msg) [];
               pointcloud_msg' = pointcloud_msg\<lparr>msg_fields := fields'\<rparr>;
               pointcloud_pcl = removeNaNFromPointCloud (fromROSMsg ext pointcloud_msg');
               (points_C, colors) = convert_points 0 (points pointcloud_pcl) [] [];
               tsdf_map' = integratePointCloud ext T_G_C points_C colors (tsdf_map node);
               node' = node\<lparr>tsdf_map := tsdf_map',
                         events := events node @ logged @ field_log @
                           [ROS_INFO ''Integrating a pointcloud with %d points.''
                              (length points_C),
                            Integrate T_G_C points_C colors,
                            ROS_INFO ''Finished integrating, have %d blocks.''
                              (getNumberOfAllocatedBlocks tsdf_map')]\<rparr>
           in map_option (\<lambda>n. (n, pointcloud_msg')) (publishTsdfSurfacePoints node')))"

subsection \<open>The constructor and the callback queue\<close>

text \<open>
  \<open>ros::spinOnce\<close> and \<open>ros::spin\<close> hand each queued point cloud message to the
  subscribed callback \<open>insertPointcloudWithTf\<close>, in order.
\<close>

fun spin ::
  "('tf, 'T) collaborators \<Rightarrow> 'T node \<Rightarrow> PointCloud2 list \<Rightarrow> 'T node option" where
  "spin ext node [] = Some node"
| "spin ext node (pointcloud_msg # queue) =
     (case insertPointcloudWithTf ext node pointcloud_msg of
        None \<Rightarrow> None
      | Some (node', _) \<Rightarrow> spin ext node' queue)"

text \<open>
  Lines 22-47. \<open>queue\<close> holds the messages that have arrived between the subscription
  (line 31) and \<open>ros::spinOnce\<close> (line 45). The literal \<open>0.02\<close> of line 37 is stored
  in single precision.
\<close>

definition VoxbloxNode ::
  "('tf, 'T) collaborators \<Rightarrow> PointCloud2 list \<Rightarrow> 'T node option" where
  "VoxbloxNode ext queue =
     (let config = \<lparr>config_tsdf_voxel_size = float_of_literal 0.02,
                     config_tsdf_voxels_per_side = 16\<rparr>;
          node = \<lparr>world_frame = ''world'', tsdf_map = TsdfMap_new config, events = []\<rparr>
      in case spin ext node queue of
           None \<Rightarrow> None
         | Some node' \<Rightarrow> publishTsdfSurfacePoints node')"

section \<open>The voxels a pass visits\<close>

text \<open>
  The voxel indices of one block in the order of the three nested loops: \<open>x\<close> outermost,
  \<open>z\<close> innermost.
\<close>

definition voxel_indices :: "nat \<Rightarrow> VoxelIndex list" where
  "voxel_indices vps =
     concat (map (\<lambda>ix. concat (map (\<lambda>iy. map (\<lambda>iz. (ix, iy, iz)) [0..<vps]) [0..<vps]))
               [0..<vps])"

text \<open>
  A voxel of the Store is referred to by the index of its block, the block and its voxel
  index. \<open>all_voxels\<close> lists them in the order of a pass.
\<close>

type_synonym voxel_ref = "BlockIndex \<times> TsdfBlock \<times> VoxelIndex"

definition block_voxels :: "TsdfMap \<Rightarrow> BlockIndex \<Rightarrow> voxel_ref list" where
  "block_voxels m index =
     (case getBlockByIndex m index of
        None \<Rightarrow> []
      | Some block \<Rightarrow>
          map (\<lambda>voxel_index. (index, block, voxel_index))
            (voxel_indices (getTsdfVoxelsPerSide m)))"

definition all_voxels :: "TsdfMap \<Rightarrow> voxel_ref list" where
  "all_voxels m = concat (map (block_voxels m) (getAllAllocatedBlocks m))"

fun voxel_of :: "voxel_ref \<Rightarrow> TsdfVoxel" where
  "voxel_of (index, block, voxel_index) = getTsdfVoxelByVoxelIndex block voxel_index"

fun coord_of :: "voxel_ref \<Rightarrow> Point" where
  "coord_of (index, block, voxel_index) =
     getCoordinatesOfTsdfVoxelByVoxelIndex block voxel_index"

text \<open>The conditions of lines 170 and 228, and the points built at lines 171-175 and 229-235.\<close>

definition is_observed :: "voxel_ref \<Rightarrow> bool" where
  "is_observed v = float_greater (weight (voxel_of v)) (Finite 0)"

definition is_surface :: "float \<Rightarrow> voxel_ref \<Rightarrow> bool" where
  "is_surface thresh v =
     (float_less (float_abs (distance (voxel_of v))) thresh \<and>
      float_greater (weight (voxel_of v)) (Finite 0))"

definition dense_point :: "voxel_ref \<Rightarrow> PointXYZI" where
  "dense_point v =
     \<lparr>xyzi_x = fst (coord_of v), xyzi_y = fst (snd (coord_of v)),
      xyzi_z = snd (snd (coord_of v)), intensity = distance (voxel_of v)\<rparr>"

definition surface_point :: "voxel_ref \<Rightarrow> PointXYZRGB" where
  "surface_point v =
     \<lparr>rgb_x = fst (coord_of v), rgb_y = fst (snd (coord_of v)),
      rgb_z = snd (snd (coord_of v)), rgb_r = color_r (color (voxel_of v)),
      rgb_g = color_g (color (voxel_of v)), rgb_b = color_b (color (voxel_of v)),
      rgb_a = rgb_a PointXYZRGB_default\<rparr>"

text \<open>The voxels each extraction emits a point for, in the order of the pass.\<close>

definition dense_voxels :: "TsdfMap \<Rightarrow> voxel_ref list" where
  "dense_voxels m = filter is_observed (all_voxels m)"

definition surface_voxels :: "TsdfMap \<Rightarrow> voxel_ref list" where
  "surface_voxels m = filter (is_surface (surface_distance_thresh m)) (all_voxels m)"

text \<open>The order of the three nested loops on voxel indices.\<close>

fun voxel_index_less :: "VoxelIndex \<Rightarrow> VoxelIndex \<Rightarrow> bool" where
  "voxel_index_less (ix, iy, iz) (jx, jy, jz) =
     (ix < jx \<or> ix = jx \<and> (iy < jy \<or> iy = jy \<and> iz < jz))"

text \<open>Calls of the integrator and of the publisher, as opposed to log lines.\<close>

fun is_integration :: "'T event \<Rightarrow> bool" where
  "is_integration (Integrate _ _ _) = True"
| "is_integration _ = False"

fun is_publication :: "'T event \<Rightarrow> bool" where
  "is_publication (Publish_XYZI _) = True"
| "is_publication (Publish_XYZRGB _) = True"
| "is_publication _ = False"

definition is_call :: "'T event \<Rightarrow> bool" where
  "is_call e = (is_integration e \<or> is_publication e)"

definition calls :: "'T node \<Rightarrow> 'T event list" where
  "calls node = filter is_call (events node)"

definition point_isfinite :: "Point \<Rightarrow> bool" where
  "point_isfinite p = (isfinite (fst p) \<and> isfinite (fst (snd p)) \<and> isfinite (snd (snd p)))"

text \<open>
  What one pass of the loops of \<open>insertPointcloudWithTf\<close> does to a single field and to
  a single point.
\<close>

definition fix_rgb_field :: "PointField \<Rightarrow> PointField" where
  "fix_rgb_field f = (if field_name f = ''rgb'' then f\<lparr>field_datatype := FLOAT32\<rparr> else f)"

definition point_xyz :: "PointXYZRGB \<Rightarrow> Point" where
  "point_xyz p = (rgb_x p, rgb_y p, rgb_z p)"

definition point_color :: "PointXYZRGB \<Rightarrow> Color" where
  "point_color p =
     \<lparr>color_r = rgb_r p, color_g = rgb_g p, color_b = rgb_b p, color_a = rgb_a p\<rparr>"

section \<open>Example inputs\<close>

text \<open>
  Scenario B of the specification: voxel size 0.02, 16 voxels per side, one block at
  \<open>(0, 0, 0)\<close> with one observed voxel of distance \<open>d\<close> (0.01 in the scenario) and
  colour red. The decimal values are stored in single precision.
\<close>

definition unobserved_voxel :: TsdfVoxel where
  "unobserved_voxel =
     \<lparr>distance = Finite 0, weight = Finite 0,
      color = \<lparr>color_r = 0, color_g = 0, color_b = 0, color_a = 0\<rparr>\<rparr>"

definition red_voxel :: "real \<Rightarrow> TsdfVoxel" where
  "red_voxel d =
     \<lparr>distance = float_of_literal d, weight = Finite 1,
      color = \<lparr>color_r = 255, color_g = 0, color_b = 0, color_a = 255\<rparr>\<rparr>"

definition scenario_block :: "real \<Rightarrow> TsdfBlock" where
  "scenario_block d =
     \<lparr>origin = (Finite 0, Finite 0, Finite 0), block_voxel_size = float_of_literal 0.02,
      voxels = (\<lambda>voxel_index. if voxel_index = (1, 2, 3) then red_voxel d
                               else unobserved_voxel)\<rparr>"

definition scenario_map :: "real \<Rightarrow> TsdfMap" where
  "scenario_map d =
     \<lparr>tsdf_voxel_size = float_of_literal 0.02, tsdf_voxels_per_side = 16,
      block_map = [((0, 0, 0), scenario_block d)]\<rparr>"

definition scenario_voxel :: "real \<Rightarrow> voxel_ref" where
  "scenario_voxel d = ((0, 0, 0), scenario_block d, (1, 2, 3))"

text \<open>
  Collaborators for the examples: a transform is known for the frame \<open>camera\<close> only;
  every message decodes to the same two points, the second with a NaN coordinate, in a
  cloud that takes its frame and its flag \<open>is_dense\<close> from the message; the integrator
  replaces the blocks of the map by the block of scenario B.
\<close>

definition example_cloud :: "PointXYZRGB list" where
  "example_cloud =
     [\<lparr>rgb_x = Finite 1, rgb_y = Finite 2, rgb_z = Finite 3,
       rgb_r = 255, rgb_g = 0, rgb_b = 0, rgb_a = 255\<rparr>,
      \<lparr>rgb_x = NaN, rgb_y = Finite 0, rgb_z = Finite 0,
       rgb_r = 0, rgb_g = 0, rgb_b = 0, rgb_a = 255\<rparr>]"

definition example_collaborators :: "(unit, unit) collaborators" where
  "example_collaborators =
     \<lparr>canTransform = (\<lambda>to_frame from_frame t. False),
      tf_lookupTransform = (\<lambda>to_frame from_frame t.
        if from_frame = ''camera'' then Inr () else Inl ''unknown frame''),
      transformTFToKindr = (\<lambda>tf_transform. ()),
      fromROSMsg = (\<lambda>msg.
        \<lparr>cloud_frame_id = frame_id (header msg), points = example_cloud,
         cloud_is_dense = is_dense msg\<rparr>),
      integratePointCloud = (\<lambda>T_G_C points_C colors m.
        m\<lparr>block_map := [((0, 0, 0), scenario_block 0.01)]\<rparr>)\<rparr>"

definition example_node :: "unit node" where
  "example_node =
     \<lparr>world_frame = ''world'',
      tsdf_map = \<lparr>tsdf_voxel_size = float_of_literal 0.02, tsdf_voxels_per_side = 16,
                   block_map = []\<rparr>,
      events = []\<rparr>"

text \<open>A message that is not flagged dense, and the same message flagged dense.\<close>

definition example_msg :: "string \<Rightarrow> PointCloud2" where
  "example_msg frame =
     \<lparr>header = \<lparr>frame_id = frame, stamp = 5\<rparr>, height = 1, width = 2,
      msg_fields =
        [\<lparr>field_name = ''x'', field_offset = 0, field_datatype = 7, field_count = 1\<rparr>,
         \<lparr>field_name = ''rgb'', field_offset = 16, field_datatype = 6, field_count = 1\<rparr>],
      is_bigendian = False, point_step = 32, row_step = 64, data = [], is_dense = False\<rparr>"

definition dense_msg :: "string \<Rightarrow> PointCloud2" where
  "dense_msg frame = (example_msg frame)\<lparr>is_dense := True\<rparr>"

section \<open>Properties of the traversal\<close>

subsection \<open>The loops as folds\<close>

lemma for_z_fold:
  "for_z vps body ix iy iz pc = fold (\<lambda>iz. body (ix, iy, iz)) [iz..<vps] pc"
proof (induction vps body ix iy iz pc rule: for_z.induct)
  case (1 vps body ix iy iz pc)
  show ?case
  proof (cases "iz < vps")
    case True
    then show ?thesis
      using 1 by (subst for_z.simps) (simp add: upt_conv_Cons [OF True])
  next
    case False
    then show ?thesis by (subst for_z.simps) simp
  qed
qed

lemma for_y_fold:
  "for_y vps body ix iy pc =
     fold (\<lambda>iy. fold (\<lambda>iz. body (ix, iy, iz)) [0..<vps]) [iy..<vps] pc"
proof (induction vps body ix iy pc rule: for_y.induct)
  case (1 vps body ix iy pc)
  show ?case
  proof (cases "iy < vps")
    case True
    then show ?thesis
      using 1 by (subst for_y.simps) (simp add: upt_conv_Cons [OF True] for_z_fold)
  next
    case False
    then show ?thesis by (subst for_y.simps) simp
  qed
qed

lemma for_x_fold:
  "for_x vps body ix pc =
     fold (\<lambda>ix. fold (\<lambda>iy. fold (\<lambda>iz. body (ix, iy, iz)) [0..<vps]) [0..<vps]) [ix..<vps] pc"
proof (induction vps body ix pc rule: for_x.induct)
  case (1 vps body ix pc)
  show ?case
  proof (cases "ix < vps")
    case True
    then show ?thesis
      using 1 by (subst for_x.simps) (simp add: upt_conv_Cons [OF True] for_y_fold)
  next
    case False
    then show ?thesis by (subst for_x.simps) simp
  qed
qed

lemma fold_concat_lists: "fold f (concat xss) = fold (fold f) xss"
  by (induction xss) simp_all

lemma for_x_voxel_indices:
  "for_x vps body 0 pc = fold body (voxel_indices vps) pc"
  by (simp add: for_x_fold voxel_indices_def fold_concat_lists fold_map comp_def)

lemma fold_emit:
  assumes "\<And>v pc. body v pc = pc @ emit v"
  shows "fold body vs pc = pc @ concat (map emit vs)"
  using assms by (induction vs arbitrary: pc) simp_all

lemma for_blocks_emit:
  assumes "\<And>index block v pc. body index block v pc = pc @ emit (index, block, v)"
    and "set blocks \<subseteq> set (getAllAllocatedBlocks m)"
  shows "for_blocks m body blocks pc =
           Some (pc @ concat (map emit (concat (map (block_voxels m) blocks))))"
  using assms(2)
proof (induction blocks arbitrary: pc)
  case Nil
  then show ?case by simp
next
  case (Cons index blocks)
  from Cons.prems have "index \<in> fst ` set (block_map m)"
    by (simp add: getAllAllocatedBlocks_def)
  then obtain block where b: "getBlockByIndex m index = Some block"
    unfolding getBlockByIndex_def by (metis map_of_eq_None_iff not_Some_eq)
  have body: "\<And>v pc. body index block v pc = pc @ (emit \<circ> (\<lambda>vi. (index, block, vi))) v"
    by (simp add: assms(1))
  from Cons.prems have sub: "set blocks \<subseteq> set (getAllAllocatedBlocks m)" by simp
  show ?case
    by (simp add: b Cons.IH [OF sub] for_x_voxel_indices fold_emit [OF body]
        block_voxels_def map_concat comp_def)
qed

lemma for_all_voxels_emit:
  assumes "\<And>index block v pc. body index block v pc = pc @ emit (index, block, v)"
  shows "for_all_voxels m body = Some (concat (map emit (all_voxels m)))"
  unfolding for_all_voxels_def all_voxels_def
  using for_blocks_emit [of body emit "getAllAllocatedBlocks m" m "[]"] assms by simp

lemma concat_map_if:
  "concat (map (\<lambda>v. if P v then [f v] else []) vs) = map f (filter P vs)"
  by (induction vs) simp_all

subsection \<open>The two bodies\<close>

lemma distance_body_emit:
  "distance_body index block voxel_index pointcloud =
     pointcloud @ (if is_observed (index, block, voxel_index)
                   then [dense_point (index, block, voxel_index)] else [])"
  by (simp add: distance_body_def is_observed_def dense_point_def PointXYZI_default_def Let_def)

lemma surface_body_emit:
  "surface_body thresh index block voxel_index pointcloud =
     pointcloud @ (if is_surface thresh (index, block, voxel_index)
                   then [surface_point (index, block, voxel_index)] else [])"
  by (simp add: surface_body_def is_surface_def surface_point_def PointXYZRGB_default_def Let_def)

lemma dense_pointcloud:
  "publishAllUpdatedTsdfVoxels_pointcloud m = Some (map dense_point (dense_voxels m))"
  unfolding publishAllUpdatedTsdfVoxels_pointcloud_def dense_voxels_def
  using for_all_voxels_emit [of distance_body
      "\<lambda>v. if is_observed v then [dense_point v] else []" m]
  by (simp add: distance_body_emit concat_map_if)

lemma surface_pointcloud:
  "publishTsdfSurfacePoints_pointcloud m = Some (map surface_point (surface_voxels m))"
  unfolding publishTsdfSurfacePoints_pointcloud_def surface_voxels_def
  using for_all_voxels_emit [of "surface_body (surface_distance_thresh m)"
      "\<lambda>v. if is_surface (surface_distance_thresh m) v then [surface_point v] else []" m]
  by (simp add: surface_body_emit concat_map_if)

subsection \<open>The enumeration\<close>

lemma set_voxel_indices:
  "set (voxel_indices vps) = {(ix, iy, iz). ix < vps \<and> iy < vps \<and> iz < vps}"
  by (auto simp: voxel_indices_def image_iff)

lemma getBlockByIndex_allocated:
  "getBlockByIndex m index = Some block \<Longrightarrow> index \<in> set (getAllAllocatedBlocks m)"
  unfolding getBlockByIndex_def getAllAllocatedBlocks_def
  by (metis map_of_SomeD fst_conv image_eqI set_map)

lemma set_block_voxels:
  "set (block_voxels m index) =
     {(i, block, vi). i = index \<and> getBlockByIndex m index = Some block \<and>
        vi \<in> set (voxel_indices (getTsdfVoxelsPerSide m))}"
  by (auto simp: block_voxels_def split: option.splits)

lemma set_all_voxels:
  "set (all_voxels m) =
     {(index, block, ix, iy, iz). getBlockByIndex m index = Some block \<and>
        ix < getTsdfVoxelsPerSide m \<and> iy < getTsdfVoxelsPerSide m \<and>
        iz < getTsdfVoxelsPerSide m}"
  by (auto simp: all_voxels_def set_block_voxels set_voxel_indices
      dest: getBlockByIndex_allocated)

lemma distinct_concat_map:
  assumes "distinct xs"
    and "\<And>x. x \<in> set xs \<Longrightarrow> distinct (f x)"
    and "\<And>x y. x \<in> set xs \<Longrightarrow> y \<in> set xs \<Longrightarrow> x \<noteq> y \<Longrightarrow> set (f x) \<inter> set (f y) = {}"
  shows "distinct (concat (map f xs))"
  using assms
proof (induction xs)
  case Nil
  then show ?case by simp
next
  case (Cons x xs)
  have "set (f x) \<inter> set (f y) = {}" if "y \<in> set xs" for y
    using Cons.prems(1) Cons.prems(3) [of x y] that by auto
  moreover have "distinct (concat (map f xs))"
    using Cons by simp
  ultimately show ?case
    using Cons.prems(2) [of x] by auto
qed

lemma distinct_voxel_indices: "distinct (voxel_indices vps)"
  unfolding voxel_indices_def
  by (intro distinct_concat_map) (auto simp: distinct_map inj_on_def)

lemma distinct_block_voxels: "distinct (block_voxels m index)"
  by (auto simp: block_voxels_def distinct_map distinct_voxel_indices inj_on_def
      split: option.splits)

lemma distinct_all_voxels:
  "distinct (getAllAllocatedBlocks m) \<Longrightarrow> distinct (all_voxels m)"
  unfolding all_voxels_def
  by (intro distinct_concat_map) (auto simp: distinct_block_voxels set_block_voxels)

lemma count_list_distinct:
  "distinct xs \<Longrightarrow> x \<in> set xs \<Longrightarrow> count_list xs x = 1"
  by (induction xs) auto

lemma count_list_filter:
  "count_list (filter P xs) x = (if P x then count_list xs x else 0)"
  by (induction xs) auto

lemma sorted_wrt_concat_map_upt:
  assumes "\<And>i. i < n \<Longrightarrow> sorted_wrt P (f i)"
    and "\<And>i j x y. i < j \<Longrightarrow> j < n \<Longrightarrow> x \<in> set (f i) \<Longrightarrow> y \<in> set (f j) \<Longrightarrow> P x y"
  shows "sorted_wrt P (concat (map f [0..<n]))"
  using assms
proof (induction n)
  case 0
  then show ?case by simp
next
  case (Suc n)
  have "sorted_wrt P (concat (map f [0..<n]))"
    using Suc by simp
  moreover have "sorted_wrt P (f n)"
    using Suc.prems(1) by simp
  moreover have "P x y" if "x \<in> set (concat (map f [0..<n]))" "y \<in> set (f n)" for x y
    using that Suc.prems(2) [of _ n x y] by auto
  ultimately show ?case
    by (simp add: sorted_wrt_append)
qed

lemma sorted_voxel_indices: "sorted_wrt voxel_index_less (voxel_indices vps)"
  unfolding voxel_indices_def
  by (intro sorted_wrt_concat_map_upt) (auto simp: sorted_wrt_map)

subsection \<open>Publishing\<close>

lemma publishAllUpdatedTsdfVoxels_eq:
  "publishAllUpdatedTsdfVoxels node =
     Some (node\<lparr>events := events node @
       [Publish_XYZI \<lparr>cloud_frame_id = world_frame node,
          points = map dense_point (dense_voxels (tsdf_map node)),
          cloud_is_dense = True\<rparr>]\<rparr>)"
  by (simp add: publishAllUpdatedTsdfVoxels_def dense_pointcloud)

lemma publishTsdfSurfacePoints_eq:
  "publishTsdfSurfacePoints node =
     Some (node\<lparr>events := events node @
       [Publish_XYZRGB \<lparr>cloud_frame_id = world_frame node,
          points = map surface_point (surface_voxels (tsdf_map node)),
          cloud_is_dense = True\<rparr>]\<rparr>)"
  by (simp add: publishTsdfSurfacePoints_def surface_pointcloud)

section \<open>Properties of the callback\<close>

lemma fix_rgb_fields_eq:
  "d \<le> length fs \<Longrightarrow>
   fix_rgb_fields d fs logged =
     (take d fs @ map fix_rgb_field (drop d fs),
      logged @ map (\<lambda>f. LOG_INFO (''Got field named: '' @ field_name f)) (drop d fs))"
proof (induction d fs logged rule: fix_rgb_fields.induct)
  case (1 d fs logged)
  show ?case
  proof (cases "d < length fs")
    case True
    let ?fs = "fs[d := fix_rgb_field (fs ! d)]"
    have upd: "(if field_name (fs ! d) = ''rgb''
                then fs[d := (fs ! d)\<lparr>field_datatype := FLOAT32\<rparr>] else fs) = ?fs"
      by (simp add: fix_rgb_field_def)
    have "fix_rgb_fields d fs logged =
        fix_rgb_fields (d + 1) ?fs
          (logged @ [LOG_INFO (''Got field named: '' @ field_name (fs ! d))])"
      using True by (subst fix_rgb_fields.simps) (simp add: upd)
    also have "\<dots> =
        (take (d + 1) ?fs @ map fix_rgb_field (drop (d + 1) ?fs),
         (logged @ [LOG_INFO (''Got field named: '' @ field_name (fs ! d))]) @
           map (\<lambda>f. LOG_INFO (''Got field named: '' @ field_name f)) (drop (d + 1) ?fs))"
      using "1.IH" [OF True] True unfolding upd by simp
    also have "take (d + 1) ?fs = take d fs @ [fix_rgb_field (fs ! d)]"
      using True by (simp add: take_Suc_conv_app_nth)
    also have "drop (d + 1) ?fs = drop (Suc d) fs"
      by simp
    finally show ?thesis
      using True by (simp add: Cons_nth_drop_Suc [symmetric])
  next
    case False
    with "1.prems" show ?thesis
      by (subst fix_rgb_fields.simps) simp
  qed
qed

lemma convert_points_eq:
  "i \<le> length pts \<Longrightarrow>
   convert_points i pts points_C colors =
     (points_C @ map point_xyz (drop i pts), colors @ map point_color (drop i pts))"
proof (induction i pts points_C colors rule: convert_points.induct)
  case (1 i pts points_C colors)
  show ?case
  proof (cases "i < length pts")
    case True
    then show ?thesis
      using "1.IH" [OF True]
      by (subst convert_points.simps)
        (simp add: Cons_nth_drop_Suc [symmetric] point_xyz_def point_color_def)
  next
    case False
    with "1.prems" show ?thesis
      by (subst convert_points.simps) simp
  qed
qed

lemma lookupTransform_log:
  "\<not> is_call e" if "e \<in> set (fst (lookupTransform ext from_frame to_frame timestamp))"
  using that
  by (auto simp: lookupTransform_def is_call_def Let_def split: if_splits sum.splits)

lemma insertPointcloudWithTf_dropped:
  assumes "lookupTransform ext (frame_id (header msg)) (world_frame node)
             (stamp (header msg)) = (logged, None)"
  shows "insertPointcloudWithTf ext node msg = Some (node\<lparr>events := events node @ logged\<rparr>, msg)"
  using assms by (simp add: insertPointcloudWithTf_def)

lemma insertPointcloudWithTf_integrated:
  assumes "lookupTransform ext (frame_id (header msg)) (world_frame node)
             (stamp (header msg)) = (logged, Some T_G_C)"
  defines "msg' \<equiv> msg\<lparr>msg_fields := map fix_rgb_field (msg_fields msg)\<rparr>"
  defines "pts \<equiv> points (removeNaNFromPointCloud (fromROSMsg ext msg'))"
  defines "m' \<equiv> integratePointCloud ext T_G_C (map point_xyz pts) (map point_color pts)
                  (tsdf_map node)"
  shows "insertPointcloudWithTf ext node msg =
     Some (node\<lparr>tsdf_map := m',
             events := events node @ logged @
               map (\<lambda>f. LOG_INFO (''Got field named: '' @ field_name f)) (msg_fields msg) @
               [ROS_INFO ''Integrating a pointcloud with %d points.'' (length pts),
                Integrate T_G_C (map point_xyz pts) (map point_color pts),
                ROS_INFO ''Finished integrating, have %d blocks.''
                  (getNumberOfAllocatedBlocks m'),
                Publish_XYZRGB \<lparr>cloud_frame_id = world_frame node,
                  points = map surface_point (surface_voxels m'),
                  cloud_is_dense = True\<rparr>]\<rparr>,
           msg')"
  using assms(1) unfolding msg'_def pts_def m'_def
  by (simp add: insertPointcloudWithTf_def fix_rgb_fields_eq convert_points_eq
      publishTsdfSurfacePoints_eq Let_def)

lemma integrations_insert:
  assumes "insertPointcloudWithTf ext node msg = Some (node', msg')"
    and "Integrate T_G_C points_C colors \<in> set (events node')"
    and "Integrate T_G_C points_C colors \<notin> set (events node)"
  shows "\<exists>msg1. points_C =
                  map point_xyz (points (removeNaNFromPointCloud (fromROSMsg ext msg1))) \<and>
                colors =
                  map point_color (points (removeNaNFromPointCloud (fromROSMsg ext msg1)))"
proof (cases "lookupTransform ext (frame_id (header msg)) (world_frame node)
    (stamp (header msg))")
  case (Pair logged r)
  have no: "Integrate T_G_C points_C colors \<notin> set logged"
    using lookupTransform_log [of "Integrate T_G_C points_C colors" ext
        "frame_id (header msg)" "world_frame node" "stamp (header msg)"]
    by (auto simp: Pair is_call_def)
  show ?thesis
  proof (cases r)
    case None
    with assms no show ?thesis
      by (auto simp: insertPointcloudWithTf_dropped [OF Pair [unfolded None]])
  next
    case (Some T)
    with assms no show ?thesis
      by (auto simp: insertPointcloudWithTf_integrated [OF Pair [unfolded Some]])
  qed
qed

lemma integrations_spin:
  assumes "spin ext node queue = Some node'"
    and "Integrate T_G_C points_C colors \<in> set (events node')"
    and "Integrate T_G_C points_C colors \<notin> set (events node)"
  shows "\<exists>msg1. points_C =
                  map point_xyz (points (removeNaNFromPointCloud (fromROSMsg ext msg1))) \<and>
                colors =
                  map point_color (points (removeNaNFromPointCloud (fromROSMsg ext msg1)))"
  using assms
proof (induction queue arbitrary: node)
  case Nil
  then show ?case by simp
next
  case (Cons msg queue)
  from Cons.prems(1) obtain node1 msg' where
    step: "insertPointcloudWithTf ext node msg = Some (node1, msg')"
    and rest: "spin ext node1 queue = Some node'"
    by (auto split: option.splits)
  show ?case
  proof (cases "Integrate T_G_C points_C colors \<in> set (events node1)")
    case True
    show ?thesis
      by (rule integrations_insert [OF step True Cons.prems(3)])
  next
    case False
    with rest Cons.prems(2) show ?thesis
      by (rule Cons.IH)
  qed
qed

lemma insertPointcloudWithTf_total:
  "\<exists>node' msg'. insertPointcloudWithTf ext node msg = Some (node', msg') \<and>
                 world_frame node' = world_frame node"
proof (cases "lookupTransform ext (frame_id (header msg)) (world_frame node)
    (stamp (header msg))")
  case (Pair logged r)
  show ?thesis
  proof (cases r)
    case None
    then show ?thesis
      by (simp add: insertPointcloudWithTf_dropped [OF Pair [unfolded None]])
  next
    case (Some T)
    then show ?thesis
      by (simp add: insertPointcloudWithTf_integrated [OF Pair [unfolded Some]])
  qed
qed

lemma spin_total:
  "\<exists>node'. spin ext node queue = Some node' \<and> world_frame node' = world_frame node"
proof (induction queue arbitrary: node)
  case Nil
  then show ?case by simp
next
  case (Cons msg queue)
  obtain node1 msg' where "insertPointcloudWithTf ext node msg = Some (node1, msg')"
    and "world_frame node1 = world_frame node"
    using insertPointcloudWithTf_total by blast
  with Cons.IH [of node1] show ?case by simp
qed

section \<open>Properties of the rounding\<close>

lemmas round_eval = float_of_literal_def to_float_def to_double_def round_real_def
  binary32_def binary64_def scale.simps round_half_even_def Let_def

lemma literal_0_02: "float_of_literal 0.02 = Finite (10737418 / 2 ^ 29)"
  by (simp add: round_eval)

lemma literal_0_01: "float_of_literal 0.01 = Finite (10737418 / 2 ^ 30)"
  by (simp add: round_eval)

lemma literal_0_015: "float_of_literal 0.015 = Finite (16106127 / 2 ^ 30)"
  by (simp add: round_eval)

lemma literal_below_0_015: "float_of_literal (16106126 / 2 ^ 30) = Finite (16106126 / 2 ^ 30)"
  by (simp add: round_eval)

lemma product_0_02: "float_mul (float_of_literal 0.02) (Finite 0.75) = Finite (16106127 / 2 ^ 30)"
  using literal_0_02 by simp

lemma thresh_0_02:
  "to_float (to_double (float_mul (float_of_literal 0.02) (Finite 0.75))) =
     Finite (16106127 / 2 ^ 30)"
  unfolding product_0_02 by (simp add: round_eval)

text \<open>
  Where the product is not a single precision number the threshold is the neighbour with
  the even significand: for the voxel size \<open>8388611 / 2 ^ 28\<close> the product
  \<open>25165833 / 2 ^ 30\<close> lies halfway between two such numbers.
\<close>

lemma thresh_ties_to_even:
  "to_float (to_double (float_mul (Finite (8388611 / 2 ^ 28)) (Finite 0.75))) =
     Finite (25165832 / 2 ^ 30)"
  by (simp add: round_eval)

section \<open>Properties of the example inputs\<close>

lemma scenario_thresh: "surface_distance_thresh (scenario_map d) = Finite (16106127 / 2 ^ 30)"
  by (simp only: surface_distance_thresh_def getTsdfVoxelSize_def scenario_map_def
      TsdfMap.select_convs thresh_0_02)

lemma scenario_voxel_visited: "scenario_voxel d \<in> set (all_voxels (scenario_map d))"
  by (simp add: set_all_voxels scenario_voxel_def scenario_map_def getBlockByIndex_def
      getTsdfVoxelsPerSide_def)

lemma filter_singleton:
  "distinct xs \<Longrightarrow> v \<in> set xs \<Longrightarrow> (\<And>x. x \<in> set xs \<Longrightarrow> P x \<longleftrightarrow> x = v) \<Longrightarrow>
   filter P xs = [v]"
proof (induction xs)
  case Nil
  then show ?case by simp
next
  case (Cons x xs)
  show ?case
  proof (cases "x = v")
    case True
    with Cons.prems have "filter P xs = []"
      by (auto simp: filter_empty_conv)
    with True Cons.prems(3) [of x] show ?thesis by simp
  next
    case False
    with Cons show ?thesis by auto
  qed
qed

lemma scenario_surface_voxels:
  "surface_voxels (scenario_map 0.01) = [scenario_voxel 0.01]"
  unfolding surface_voxels_def
proof (rule filter_singleton)
  show "distinct (all_voxels (scenario_map 0.01))"
    by (rule distinct_all_voxels) (simp add: getAllAllocatedBlocks_def scenario_map_def)
  show "scenario_voxel 0.01 \<in> set (all_voxels (scenario_map 0.01))"
    by (rule scenario_voxel_visited)
next
  fix v assume "v \<in> set (all_voxels (scenario_map 0.01))"
  then obtain voxel_index where v: "v = ((0, 0, 0), scenario_block 0.01, voxel_index)"
    by (auto simp: set_all_voxels getBlockByIndex_def scenario_map_def split: if_splits)
  show "is_surface (surface_distance_thresh (scenario_map 0.01)) v \<longleftrightarrow> v = scenario_voxel 0.01"
    unfolding scenario_thresh using literal_0_01
    by (simp add: v is_surface_def scenario_voxel_def getTsdfVoxelByVoxelIndex_def
        scenario_block_def red_voxel_def unobserved_voxel_def float_greater_def)
qed

lemma scenario_dense_voxels:
  "dense_voxels (scenario_map 0.01) = [scenario_voxel 0.01]"
  unfolding dense_voxels_def
proof (rule filter_singleton)
  show "distinct (all_voxels (scenario_map 0.01))"
    by (rule distinct_all_voxels) (simp add: getAllAllocatedBlocks_def scenario_map_def)
  show "scenario_voxel 0.01 \<in> set (all_voxels (scenario_map 0.01))"
    by (rule scenario_voxel_visited)
next
  fix v assume "v \<in> set (all_voxels (scenario_map 0.01))"
  then obtain voxel_index where v: "v = ((0, 0, 0), scenario_block 0.01, voxel_index)"
    by (auto simp: set_all_voxels getBlockByIndex_def scenario_map_def split: if_splits)
  show "is_observed v \<longleftrightarrow> v = scenario_voxel 0.01"
    by (simp add: v is_observed_def scenario_voxel_def getTsdfVoxelByVoxelIndex_def
        scenario_block_def red_voxel_def unobserved_voxel_def float_greater_def)
qed

lemma scenario_distance: "distance (voxel_of (scenario_voxel d)) = float_of_literal d"
  by (simp add: scenario_voxel_def scenario_block_def red_voxel_def getTsdfVoxelByVoxelIndex_def)

lemma scenario_weight: "weight (voxel_of (scenario_voxel d)) = Finite 1"
  by (simp add: scenario_voxel_def scenario_block_def red_voxel_def getTsdfVoxelByVoxelIndex_def)

lemma scenario_surface_point:
  "surface_point (scenario_voxel d) =
     \<lparr>rgb_x = Finite (10737418 / 2 ^ 29), rgb_y = Finite (10737418 / 2 ^ 28),
      rgb_z = Finite (32212254 / 2 ^ 29), rgb_r = 255, rgb_g = 0, rgb_b = 0, rgb_a = 255\<rparr>"
  using literal_0_02
  by (simp add: surface_point_def scenario_voxel_def scenario_block_def red_voxel_def
      getTsdfVoxelByVoxelIndex_def PointXYZRGB_default_def)

lemma example_integrated:
  "integratePointCloud example_collaborators T_G_C points_C colors (tsdf_map example_node) =
     scenario_map 0.01"
  by (simp add: example_collaborators_def example_node_def scenario_map_def)

lemma example_filtered:
  "points (removeNaNFromPointCloud (fromROSMsg example_collaborators
     ((example_msg frame)\<lparr>msg_fields := fs\<rparr>))) = [hd example_cloud]"
  by (simp add: removeNaNFromPointCloud_def example_collaborators_def example_cloud_def
      example_msg_def)

lemma example_unfiltered:
  "points (removeNaNFromPointCloud (fromROSMsg example_collaborators
     ((dense_msg frame)\<lparr>msg_fields := fs\<rparr>))) = example_cloud"
  by (simp add: removeNaNFromPointCloud_def example_collaborators_def dense_msg_def
      example_msg_def)

lemma removeNaNFromPointCloud_finite:
  "\<not> cloud_is_dense cloud \<Longrightarrow> p \<in> set (points (removeNaNFromPointCloud cloud)) \<Longrightarrow>
   point_isfinite (point_xyz p)"
  by (simp add: removeNaNFromPointCloud_def point_isfinite_def point_xyz_def)

lemma example_lookup_camera:
  "lookupTransform example_collaborators ''camera'' ''world'' 5 =
     ([ROS_WARN ''Using latest TF transform instead of timestamp match.''], Some ())"
  by (simp add: lookupTransform_def example_collaborators_def)

lemma example_lookup_lidar:
  "lookupTransform example_collaborators ''lidar'' ''world'' 5 =
     ([ROS_WARN ''Using latest TF transform instead of timestamp match.'',
       ROS_ERROR ''Error getting TF transform from sensor data: unknown frame''], None)"
  by (simp add: lookupTransform_def example_collaborators_def)

section \<open>Surface extraction\<close>

text \<open>
  C1. The surface extraction emits one point for each entry of \<open>surface_voxels\<close>. A
  voxel of an allocated block is among them if and only if its weight is greater than 0
  and the absolute value of its distance is less than the threshold. The threshold is
  the voxel size times 0.75 as line 206 stores it in a \<open>float\<close>; for the voxel size
  0.02 of the node it is exactly three quarters of the stored voxel size. The comparison
  is strict: a voxel whose absolute distance equals the threshold is not emitted. The
  point of a voxel carries the voxel's world coordinate and the red, green and blue
  channels of its colour.
\<close>

theorem surface_extraction_emits_iff:
  "publishTsdfSurfacePoints_pointcloud m = Some (map surface_point (surface_voxels m)) \<and>
   surface_distance_thresh m =
     to_float (to_double (float_mul (getTsdfVoxelSize m) (Finite 0.75))) \<and>
   (getTsdfVoxelSize m = float_of_literal 0.02 \<longrightarrow>
      surface_distance_thresh m = float_mul (getTsdfVoxelSize m) (Finite 0.75)) \<and>
   (\<forall>v \<in> set (all_voxels m).
      (v \<in> set (surface_voxels m) \<longleftrightarrow>
         float_greater (weight (voxel_of v)) (Finite 0) \<and>
         float_less (float_abs (distance (voxel_of v))) (surface_distance_thresh m)) \<and>
      (float_abs (distance (voxel_of v)) = surface_distance_thresh m
         \<longrightarrow> v \<notin> set (surface_voxels m)) \<and>
      (rgb_x (surface_point v), rgb_y (surface_point v), rgb_z (surface_point v)) = coord_of v \<and>
      rgb_r (surface_point v) = color_r (color (voxel_of v)) \<and>
      rgb_g (surface_point v) = color_g (color (voxel_of v)) \<and>
      rgb_b (surface_point v) = color_b (color (voxel_of v)))"
proof -
  have irrefl: "\<not> float_less a a" for a
    by (cases a) simp_all
  have exact: "surface_distance_thresh m = float_mul (getTsdfVoxelSize m) (Finite 0.75)"
    if "getTsdfVoxelSize m = float_of_literal 0.02"
  proof -
    have "surface_distance_thresh m = Finite (16106127 / 2 ^ 30)"
      unfolding surface_distance_thresh_def that by (rule thresh_0_02)
    moreover have "float_mul (getTsdfVoxelSize m) (Finite 0.75) = Finite (16106127 / 2 ^ 30)"
      unfolding that by (rule product_0_02)
    ultimately show ?thesis by simp
  qed
  have voxels: "(v \<in> set (surface_voxels m) \<longleftrightarrow>
         float_greater (weight (voxel_of v)) (Finite 0) \<and>
         float_less (float_abs (distance (voxel_of v))) (surface_distance_thresh m)) \<and>
      (float_abs (distance (voxel_of v)) = surface_distance_thresh m
         \<longrightarrow> v \<notin> set (surface_voxels m)) \<and>
      (rgb_x (surface_point v), rgb_y (surface_point v), rgb_z (surface_point v)) = coord_of v \<and>
      rgb_r (surface_point v) = color_r (color (voxel_of v)) \<and>
      rgb_g (surface_point v) = color_g (color (voxel_of v)) \<and>
      rgb_b (surface_point v) = color_b (color (voxel_of v))"
    if "v \<in> set (all_voxels m)" for v
    using that by (auto simp: surface_voxels_def is_surface_def surface_point_def irrefl)
  have cloud: "publishTsdfSurfacePoints_pointcloud m =
      Some (map surface_point (surface_voxels m))"
    by (rule surface_pointcloud)
  have thresh: "surface_distance_thresh m =
      to_float (to_double (float_mul (getTsdfVoxelSize m) (Finite 0.75)))"
    by (simp add: surface_distance_thresh_def)
  from cloud thresh exact voxels show ?thesis
    by blast
qed

theorem surface_extraction_emits_iff_witness:
  "getTsdfVoxelSize (scenario_map 0.01) = float_of_literal 0.02 \<and>
   surface_distance_thresh (scenario_map 0.01) = Finite (16106127 / 2 ^ 30) \<and>
   scenario_voxel 0.01 \<in> set (all_voxels (scenario_map 0.01)) \<and>
   scenario_voxel 0.01 \<in> set (surface_voxels (scenario_map 0.01)) \<and>
   scenario_voxel 0.015 \<in> set (all_voxels (scenario_map 0.015)) \<and>
   distance (voxel_of (scenario_voxel 0.015)) = Finite (16106127 / 2 ^ 30) \<and>
   scenario_voxel 0.015 \<notin> set (surface_voxels (scenario_map 0.015)) \<and>
   scenario_voxel (16106126 / 2 ^ 30) \<in> set (all_voxels (scenario_map (16106126 / 2 ^ 30))) \<and>
   distance (voxel_of (scenario_voxel (16106126 / 2 ^ 30))) = Finite (16106126 / 2 ^ 30) \<and>
   scenario_voxel (16106126 / 2 ^ 30) \<in> set (surface_voxels (scenario_map (16106126 / 2 ^ 30))) \<and>
   surface_point (scenario_voxel 0.01) =
     \<lparr>rgb_x = Finite (10737418 / 2 ^ 29), rgb_y = Finite (10737418 / 2 ^ 28),
      rgb_z = Finite (32212254 / 2 ^ 29), rgb_r = 255, rgb_g = 0, rgb_b = 0, rgb_a = 255\<rparr>"
proof -
  have s: "getTsdfVoxelSize (scenario_map 0.01) = float_of_literal 0.02"
    by (simp add: getTsdfVoxelSize_def scenario_map_def)
  have t: "surface_distance_thresh (scenario_map 0.01) = Finite (16106127 / 2 ^ 30)"
    using surface_extraction_emits_iff [of "scenario_map 0.01", THEN conjunct2,
        THEN conjunct2, THEN conjunct1, rule_format, OF s]
    unfolding s product_0_02 .
  have a: "scenario_voxel d \<in> set (all_voxels (scenario_map d))" for d
    by (rule scenario_voxel_visited)
  note inst = surface_extraction_emits_iff [THEN conjunct2, THEN conjunct2, THEN conjunct2,
      rule_format, OF a, THEN conjunct1, unfolded scenario_thresh scenario_distance
      scenario_weight]
  have d1: "distance (voxel_of (scenario_voxel 0.015)) = Finite (16106127 / 2 ^ 30)"
    unfolding scenario_distance by (rule literal_0_015)
  have d2: "distance (voxel_of (scenario_voxel (16106126 / 2 ^ 30))) =
      Finite (16106126 / 2 ^ 30)"
    unfolding scenario_distance by (rule literal_below_0_015)
  have c: "scenario_voxel 0.01 \<in> set (surface_voxels (scenario_map 0.01))"
    unfolding inst literal_0_01 by (simp add: float_greater_def)
  have e: "scenario_voxel 0.015 \<notin> set (surface_voxels (scenario_map 0.015))"
    unfolding inst literal_0_015 by (simp add: float_greater_def)
  have f: "scenario_voxel (16106126 / 2 ^ 30) \<in>
      set (surface_voxels (scenario_map (16106126 / 2 ^ 30)))"
    unfolding inst literal_below_0_015 by (simp add: float_greater_def)
  from s t a [of "0.01"] c a [of "0.015"] d1 e a [of "16106126 / 2 ^ 30"] d2 f
    scenario_surface_point [of "0.01"]
  show ?thesis by blast
qed

section \<open>Dense distance extraction\<close>

text \<open>
  C2. With unique block coordinates, every voxel of weight greater than 0 in an allocated
  block occurs exactly once among the voxels the dense distance extraction emits a point
  for; its point has the coordinate \<open>origin + index * voxel size\<close> of its block and the
  stored distance as intensity. A voxel of weight 0 is emitted by neither extraction.
\<close>

theorem dense_extraction_exactly_once:
  assumes "distinct (getAllAllocatedBlocks m)"
  shows "publishAllUpdatedTsdfVoxels_pointcloud m = Some (map dense_point (dense_voxels m)) \<and>
    publishTsdfSurfacePoints_pointcloud m = Some (map surface_point (surface_voxels m)) \<and>
    (\<forall>(index, block, ix, iy, iz) \<in> set (all_voxels m).
       (float_greater (weight (getTsdfVoxelByVoxelIndex block (ix, iy, iz))) (Finite 0) \<longrightarrow>
          count_list (dense_voxels m) (index, block, ix, iy, iz) = 1 \<and>
          xyzi_x (dense_point (index, block, ix, iy, iz)) =
            float_add (fst (origin block))
              (float_mul (Finite (real ix)) (block_voxel_size block)) \<and>
          xyzi_y (dense_point (index, block, ix, iy, iz)) =
            float_add (fst (snd (origin block)))
              (float_mul (Finite (real iy)) (block_voxel_size block)) \<and>
          xyzi_z (dense_point (index, block, ix, iy, iz)) =
            float_add (snd (snd (origin block)))
              (float_mul (Finite (real iz)) (block_voxel_size block)) \<and>
          intensity (dense_point (index, block, ix, iy, iz)) =
            distance (getTsdfVoxelByVoxelIndex block (ix, iy, iz))) \<and>
       (weight (getTsdfVoxelByVoxelIndex block (ix, iy, iz)) = Finite 0 \<longrightarrow>
          (index, block, ix, iy, iz) \<notin> set (dense_voxels m) \<and>
          (index, block, ix, iy, iz) \<notin> set (surface_voxels m)))"
proof -
  have once: "count_list (dense_voxels m) v = 1" if "v \<in> set (all_voxels m)" "is_observed v" for v
    using that distinct_all_voxels [OF assms]
    by (simp add: dense_voxels_def count_list_filter count_list_distinct)
  have coord: "dense_point (index, block, ix, iy, iz) =
      \<lparr>xyzi_x = float_add (fst (origin block))
                  (float_mul (Finite (real ix)) (block_voxel_size block)),
       xyzi_y = float_add (fst (snd (origin block)))
                  (float_mul (Finite (real iy)) (block_voxel_size block)),
       xyzi_z = float_add (snd (snd (origin block)))
                  (float_mul (Finite (real iz)) (block_voxel_size block)),
       intensity = distance (getTsdfVoxelByVoxelIndex block (ix, iy, iz))\<rparr>"
    for index block ix iy iz
    by (simp add: dense_point_def split: prod.splits)
  have unobserved: "\<not> float_greater (Finite 0) (Finite 0)"
    by (simp add: float_greater_def)
  show ?thesis
  proof (intro conjI ballI)
    show "publishAllUpdatedTsdfVoxels_pointcloud m = Some (map dense_point (dense_voxels m))"
      by (rule dense_pointcloud)
    show "publishTsdfSurfacePoints_pointcloud m = Some (map surface_point (surface_voxels m))"
      by (rule surface_pointcloud)
  next
    fix v assume v: "v \<in> set (all_voxels m)"
    obtain index block ix iy iz where eq: "v = (index, block, ix, iy, iz)"
      by (metis prod_cases5)
    show "case v of (index, block, ix, iy, iz) \<Rightarrow>
       (float_greater (weight (getTsdfVoxelByVoxelIndex block (ix, iy, iz))) (Finite 0) \<longrightarrow>
          count_list (dense_voxels m) (index, block, ix, iy, iz) = 1 \<and>
          xyzi_x (dense_point (index, block, ix, iy, iz)) =
            float_add (fst (origin block))
              (float_mul (Finite (real ix)) (block_voxel_size block)) \<and>
          xyzi_y (dense_point (index, block, ix, iy, iz)) =
            float_add (fst (snd (origin block)))
              (float_mul (Finite (real iy)) (block_voxel_size block)) \<and>
          xyzi_z (dense_point (index, block, ix, iy, iz)) =
            float_add (snd (snd (origin block)))
              (float_mul (Finite (real iz)) (block_voxel_size block)) \<and>
          intensity (dense_point (index, block, ix, iy, iz)) =
            distance (getTsdfVoxelByVoxelIndex block (ix, iy, iz))) \<and>
       (weight (getTsdfVoxelByVoxelIndex block (ix, iy, iz)) = Finite 0 \<longrightarrow>
          (index, block, ix, iy, iz) \<notin> set (dense_voxels m) \<and>
          (index, block, ix, iy, iz) \<notin> set (surface_voxels m))"
      using once [of v] v unobserved unfolding eq
      by (simp add: coord is_observed_def dense_voxels_def surface_voxels_def is_surface_def)
  qed
qed

theorem dense_extraction_exactly_once_witness:
  "distinct (getAllAllocatedBlocks (scenario_map 0.01)) \<and>
   scenario_voxel 0.01 \<in> set (all_voxels (scenario_map 0.01)) \<and>
   count_list (dense_voxels (scenario_map 0.01)) (scenario_voxel 0.01) = 1 \<and>
   xyzi_x (dense_point (scenario_voxel 0.01)) = Finite (10737418 / 2 ^ 29) \<and>
   intensity (dense_point (scenario_voxel 0.01)) = Finite (10737418 / 2 ^ 30) \<and>
   ((0, 0, 0), scenario_block 0.01, (0, 0, 0)) \<in> set (all_voxels (scenario_map 0.01)) \<and>
   ((0, 0, 0), scenario_block 0.01, (0, 0, 0)) \<notin> set (dense_voxels (scenario_map 0.01)) \<and>
   ((0, 0, 0), scenario_block 0.01, (0, 0, 0)) \<notin> set (surface_voxels (scenario_map 0.01))"
proof -
  have d: "distinct (getAllAllocatedBlocks (scenario_map 0.01))"
    by (simp add: getAllAllocatedBlocks_def scenario_map_def)
  have a: "((0, 0, 0), scenario_block 0.01, (1, 2, 3)) \<in> set (all_voxels (scenario_map 0.01))"
    using scenario_voxel_visited [of "0.01"] by (simp add: scenario_voxel_def)
  have b: "((0, 0, 0), scenario_block 0.01, (0, 0, 0)) \<in> set (all_voxels (scenario_map 0.01))"
    by (simp add: set_all_voxels scenario_map_def getBlockByIndex_def getTsdfVoxelsPerSide_def)
  note inst = dense_extraction_exactly_once [OF d, THEN conjunct2, THEN conjunct2, rule_format]
  from inst [OF a] inst [OF b] d a b literal_0_02 literal_0_01 show ?thesis
    by (simp add: scenario_voxel_def scenario_block_def red_voxel_def unobserved_voxel_def
        getTsdfVoxelByVoxelIndex_def float_greater_def)
qed

section \<open>Relating the two extractions\<close>

text \<open>
  C3, as stated, fails: in scenario B the surface extraction and the dense distance
  extraction emit the same voxels, so the former set is not a strict subset of the
  latter.
\<close>

theorem surface_subset_not_strict:
  "publishTsdfSurfacePoints_pointcloud (scenario_map 0.01) =
     Some [surface_point (scenario_voxel 0.01)] \<and>
   publishAllUpdatedTsdfVoxels_pointcloud (scenario_map 0.01) =
     Some [dense_point (scenario_voxel 0.01)] \<and>
   \<not> set (surface_voxels (scenario_map 0.01)) \<subset> set (dense_voxels (scenario_map 0.01))"
  unfolding surface_pointcloud dense_pointcloud scenario_surface_voxels scenario_dense_voxels
  by simp

text \<open>
  C3, amended. For every Store the voxels emitted by the surface extraction are among
  the voxels emitted by the dense distance extraction (the two sets may be equal), and
  every voxel emitted by the surface extraction has an absolute distance below the
  threshold.
\<close>

theorem surface_subset_dense:
  "publishTsdfSurfacePoints_pointcloud m = Some (map surface_point (surface_voxels m)) \<and>
   publishAllUpdatedTsdfVoxels_pointcloud m = Some (map dense_point (dense_voxels m)) \<and>
   set (surface_voxels m) \<subseteq> set (dense_voxels m) \<and>
   (\<forall>v \<in> set (surface_voxels m).
      float_less (float_abs (distance (voxel_of v))) (surface_distance_thresh m))"
  by (auto simp: surface_pointcloud dense_pointcloud surface_voxels_def dense_voxels_def
      is_surface_def is_observed_def)

theorem surface_subset_dense_witness:
  "scenario_voxel 0.01 \<in> set (surface_voxels (scenario_map 0.01)) \<and>
   scenario_voxel 0.01 \<in> set (dense_voxels (scenario_map 0.01)) \<and>
   float_less (float_abs (distance (voxel_of (scenario_voxel 0.01))))
     (surface_distance_thresh (scenario_map 0.01))"
proof -
  have "scenario_voxel 0.01 \<in> set (surface_voxels (scenario_map 0.01))"
    unfolding scenario_surface_voxels by simp
  with surface_subset_dense [of "scenario_map 0.01"] show ?thesis
    by blast
qed

section \<open>One observation\<close>

text \<open>
  C4, as stated, fails: for an observation whose pose lookup succeeds the node calls the
  integrator once and hands one message to the publisher, the surface point cloud; no
  dense distance point cloud is published.
\<close>

theorem one_observation_publishes_surface_only:
  "map_option (calls \<circ> fst)
     (insertPointcloudWithTf example_collaborators example_node (example_msg ''camera'')) =
   Some [Integrate () [(Finite 1, Finite 2, Finite 3)]
           [\<lparr>color_r = 255, color_g = 0, color_b = 0, color_a = 255\<rparr>],
         Publish_XYZRGB \<lparr>cloud_frame_id = ''world'',
           points = [\<lparr>rgb_x = Finite (10737418 / 2 ^ 29), rgb_y = Finite (10737418 / 2 ^ 28),
                      rgb_z = Finite (32212254 / 2 ^ 29),
                      rgb_r = 255, rgb_g = 0, rgb_b = 0, rgb_a = 255\<rparr>],
           cloud_is_dense = True\<rparr>]"
proof -
  have l: "lookupTransform example_collaborators
      (frame_id (header (example_msg ''camera''))) (world_frame example_node)
      (stamp (header (example_msg ''camera''))) =
     ([ROS_WARN ''Using latest TF transform instead of timestamp match.''], Some ())"
    using example_lookup_camera by (simp add: example_msg_def example_node_def)
  show ?thesis
    unfolding insertPointcloudWithTf_integrated [OF l] example_integrated example_filtered
      scenario_surface_voxels list.map scenario_surface_point
    by (simp add: calls_def is_call_def example_cloud_def point_xyz_def point_color_def
        example_node_def)
qed

text \<open>
  C4, amended. For every observation whose pose lookup succeeds, the node performs
  exactly one integration call followed by exactly one publication: the surface point
  cloud extracted from the map after the integration, tagged with the world frame
  identifier.
\<close>

theorem one_integration_then_one_surface_cloud:
  assumes "snd (lookupTransform ext (frame_id (header msg)) (world_frame node)
             (stamp (header msg))) = Some T_G_C"
  shows "\<exists>node' msg' points_C colors.
           insertPointcloudWithTf ext node msg = Some (node', msg') \<and>
           tsdf_map node' = integratePointCloud ext T_G_C points_C colors (tsdf_map node) \<and>
           calls node' = calls node @
             [Integrate T_G_C points_C colors,
              Publish_XYZRGB \<lparr>cloud_frame_id = world_frame node,
                points = map surface_point (surface_voxels (tsdf_map node')),
                cloud_is_dense = True\<rparr>]"
proof -
  obtain logged where l: "lookupTransform ext (frame_id (header msg)) (world_frame node)
      (stamp (header msg)) = (logged, Some T_G_C)"
    using assms by (cases "lookupTransform ext (frame_id (header msg)) (world_frame node)
      (stamp (header msg))") simp
  have "filter is_call logged = []"
    using lookupTransform_log [of _ ext "frame_id (header msg)" "world_frame node"
        "stamp (header msg)"]
    by (simp add: l filter_empty_conv)
  then show ?thesis
    unfolding insertPointcloudWithTf_integrated [OF l]
    by (simp add: calls_def is_call_def comp_def)
qed

theorem one_integration_then_one_surface_cloud_witness:
  "snd (lookupTransform example_collaborators (frame_id (header (example_msg ''camera'')))
          (world_frame example_node) (stamp (header (example_msg ''camera'')))) = Some () \<and>
   (\<exists>node' msg' points_C colors.
      insertPointcloudWithTf example_collaborators example_node (example_msg ''camera'') =
        Some (node', msg') \<and>
      calls node' = [Integrate () points_C colors,
        Publish_XYZRGB \<lparr>cloud_frame_id = ''world'',
          points = map surface_point (surface_voxels (tsdf_map node')),
          cloud_is_dense = True\<rparr>])"
proof -
  have l: "snd (lookupTransform example_collaborators
      (frame_id (header (example_msg ''camera''))) (world_frame example_node)
      (stamp (header (example_msg ''camera'')))) = Some ()"
    using example_lookup_camera by (simp add: example_msg_def example_node_def)
  from one_integration_then_one_surface_cloud [OF l] l show ?thesis
    by (auto simp: calls_def example_node_def)
qed

section \<open>A failed pose lookup\<close>

text \<open>
  C5. If the pose lookup fails, \<open>insertPointcloudWithTf\<close> returns with the message as
  it was; the node differs from before only by the log lines of the lookup: the Store is
  the same and neither the integrator nor the publisher has been called. The remaining
  observations are processed from that state.
\<close>

theorem failed_lookup_drops_observation:
  assumes "snd (lookupTransform ext (frame_id (header msg)) (world_frame node)
             (stamp (header msg))) = None"
  shows "\<exists>node'.
           insertPointcloudWithTf ext node msg = Some (node', msg) \<and>
           tsdf_map node' = tsdf_map node \<and>
           world_frame node' = world_frame node \<and>
           events node' = events node @
             fst (lookupTransform ext (frame_id (header msg)) (world_frame node)
                    (stamp (header msg))) \<and>
           calls node' = calls node \<and>
           spin ext node (msg # queue) = spin ext node' queue"
proof -
  let ?logged = "fst (lookupTransform ext (frame_id (header msg)) (world_frame node)
                        (stamp (header msg)))"
  have l: "lookupTransform ext (frame_id (header msg)) (world_frame node)
      (stamp (header msg)) = (?logged, None)"
    using assms by (simp add: prod_eq_iff)
  have "filter is_call ?logged = []"
    using lookupTransform_log [of _ ext "frame_id (header msg)" "world_frame node"
        "stamp (header msg)"]
    by (simp add: filter_empty_conv)
  then show ?thesis
    by (simp add: insertPointcloudWithTf_dropped [OF l] calls_def)
qed

theorem failed_lookup_drops_observation_witness:
  "snd (lookupTransform example_collaborators (frame_id (header (example_msg ''lidar'')))
          (world_frame example_node) (stamp (header (example_msg ''lidar'')))) = None \<and>
   insertPointcloudWithTf example_collaborators example_node (example_msg ''lidar'') =
     Some (example_node\<lparr>events :=
             [ROS_WARN ''Using latest TF transform instead of timestamp match.'',
              ROS_ERROR ''Error getting TF transform from sensor data: unknown frame'']\<rparr>,
           example_msg ''lidar'')"
proof -
  have l: "lookupTransform example_collaborators (frame_id (header (example_msg ''lidar'')))
      (world_frame example_node) (stamp (header (example_msg ''lidar''))) =
     ([ROS_WARN ''Using latest TF transform instead of timestamp match.'',
       ROS_ERROR ''Error getting TF transform from sensor data: unknown frame''], None)"
    using example_lookup_lidar by (simp add: example_msg_def example_node_def)
  then have n: "snd (lookupTransform example_collaborators
      (frame_id (header (example_msg ''lidar''))) (world_frame example_node)
      (stamp (header (example_msg ''lidar'')))) = None"
    by simp
  from failed_lookup_drops_observation [OF n, of "[]"] obtain node' where
    "insertPointcloudWithTf example_collaborators example_node (example_msg ''lidar'') =
       Some (node', example_msg ''lidar'')"
    "tsdf_map node' = tsdf_map example_node" "world_frame node' = world_frame example_node"
    "events node' = events example_node @
       [ROS_WARN ''Using latest TF transform instead of timestamp match.'',
        ROS_ERROR ''Error getting TF transform from sensor data: unknown frame'']"
    unfolding l by auto
  with n show ?thesis
    by (simp add: example_node_def)
qed

section \<open>Order of the output\<close>

text \<open>
  C6. Both extractions emit their points in the order of \<open>all_voxels\<close>: the blocks in
  the order of the enumeration of allocated blocks and, within a block, the voxel indices
  in the order of the nested loops, \<open>x\<close> before \<open>y\<close> before \<open>z\<close>. The sequence is a
  function of the Store alone.
\<close>

theorem extraction_order:
  "publishAllUpdatedTsdfVoxels_pointcloud m =
     Some (map dense_point (filter is_observed (all_voxels m))) \<and>
   publishTsdfSurfacePoints_pointcloud m =
     Some (map surface_point (filter (is_surface (surface_distance_thresh m)) (all_voxels m))) \<and>
   all_voxels m = concat (map (block_voxels m) (getAllAllocatedBlocks m)) \<and>
   (\<forall>index \<in> set (getAllAllocatedBlocks m).
      map fst (block_voxels m index) =
        replicate (length (voxel_indices (getTsdfVoxelsPerSide m))) index \<and>
      map (snd \<circ> snd) (block_voxels m index) = voxel_indices (getTsdfVoxelsPerSide m)) \<and>
   sorted_wrt voxel_index_less (voxel_indices (getTsdfVoxelsPerSide m))"
proof -
  have "map fst (block_voxels m index) =
        replicate (length (voxel_indices (getTsdfVoxelsPerSide m))) index \<and>
      map (snd \<circ> snd) (block_voxels m index) = voxel_indices (getTsdfVoxelsPerSide m)"
    if "index \<in> set (getAllAllocatedBlocks m)" for index
  proof -
    from that obtain block where "getBlockByIndex m index = Some block"
      unfolding getBlockByIndex_def getAllAllocatedBlocks_def
      by (metis map_of_eq_None_iff not_Some_eq set_map)
    then show ?thesis
      by (simp add: block_voxels_def comp_def map_replicate_const)
  qed
  then show ?thesis
    using dense_pointcloud [of m] surface_pointcloud [of m]
    by (simp add: dense_voxels_def surface_voxels_def all_voxels_def sorted_voxel_indices)
qed

theorem extraction_order_witness:
  "(0, 0, 0) \<in> set (getAllAllocatedBlocks (scenario_map 0.01)) \<and>
   map fst (block_voxels (scenario_map 0.01) (0, 0, 0)) =
     replicate (length (voxel_indices 16)) (0, 0, 0) \<and>
   map (snd \<circ> snd) (block_voxels (scenario_map 0.01) (0, 0, 0)) = voxel_indices 16 \<and>
   sorted_wrt voxel_index_less (voxel_indices 16)"
proof -
  have a: "(0, 0, 0) \<in> set (getAllAllocatedBlocks (scenario_map 0.01))"
    by (simp add: getAllAllocatedBlocks_def scenario_map_def)
  have vps: "getTsdfVoxelsPerSide (scenario_map 0.01) = 16"
    by (simp add: getTsdfVoxelsPerSide_def scenario_map_def)
  from extraction_order [of "scenario_map 0.01"] a show ?thesis
    unfolding vps by blast
qed

section \<open>The extractions as reads of the Store\<close>

text \<open>
  C7. Either extraction returns, leaves the Store as it was and publishes a point cloud;
  called again on the resulting state it publishes the same point cloud, element for
  element.
\<close>

theorem extraction_idempotent_pure:
  "(\<exists>cloud node1 node2.
      publishTsdfSurfacePoints node = Some node1 \<and>
      publishTsdfSurfacePoints node1 = Some node2 \<and>
      events node1 = events node @ [Publish_XYZRGB cloud] \<and>
      events node2 = events node @ [Publish_XYZRGB cloud, Publish_XYZRGB cloud] \<and>
      tsdf_map node1 = tsdf_map node \<and> tsdf_map node2 = tsdf_map node) \<and>
   (\<exists>cloud node1 node2.
      publishAllUpdatedTsdfVoxels node = Some node1 \<and>
      publishAllUpdatedTsdfVoxels node1 = Some node2 \<and>
      events node1 = events node @ [Publish_XYZI cloud] \<and>
      events node2 = events node @ [Publish_XYZI cloud, Publish_XYZI cloud] \<and>
      tsdf_map node1 = tsdf_map node \<and> tsdf_map node2 = tsdf_map node)"
  by (simp add: publishTsdfSurfacePoints_eq publishAllUpdatedTsdfVoxels_eq)

theorem extraction_idempotent_pure_witness:
  "\<exists>cloud node1 node2.
      publishTsdfSurfacePoints example_node = Some node1 \<and>
      publishTsdfSurfacePoints node1 = Some node2 \<and>
      events node1 = [Publish_XYZRGB cloud] \<and>
      events node2 = [Publish_XYZRGB cloud, Publish_XYZRGB cloud] \<and>
      block_map (tsdf_map node1) = [] \<and> block_map (tsdf_map node2) = []"
  using extraction_idempotent_pure [of example_node]
  by (fastforce simp: example_node_def)

section \<open>The integrator's precondition\<close>

text \<open>
  C8, as stated, fails: a message flagged dense passes the NaN filter untested, so a
  point with a NaN coordinate in such a message reaches the integrator.
\<close>

theorem dense_flag_passes_nan:
  "map_option (filter is_integration \<circ> events \<circ> fst)
     (insertPointcloudWithTf example_collaborators example_node (dense_msg ''camera'')) =
   Some [Integrate ()
           [(Finite 1, Finite 2, Finite 3), (NaN, Finite 0, Finite 0)]
           [\<lparr>color_r = 255, color_g = 0, color_b = 0, color_a = 255\<rparr>,
            \<lparr>color_r = 0, color_g = 0, color_b = 0, color_a = 255\<rparr>]] \<and>
   \<not> point_isfinite (NaN, Finite 0, Finite 0)"
proof -
  have l: "lookupTransform example_collaborators
      (frame_id (header (dense_msg ''camera''))) (world_frame example_node)
      (stamp (header (dense_msg ''camera''))) =
     ([ROS_WARN ''Using latest TF transform instead of timestamp match.''], Some ())"
    using example_lookup_camera by (simp add: dense_msg_def example_msg_def example_node_def)
  show ?thesis
    unfolding insertPointcloudWithTf_integrated [OF l] example_unfiltered
    by (simp add: example_cloud_def point_xyz_def point_color_def point_isfinite_def
        example_node_def)
qed

text \<open>
  C8, amended. In every run of the node, from its construction through any sequence of
  observations, every call of the integrator receives as many colours as points: both
  sequences are built in one loop over the cloud that the NaN filter returned for a
  converted message. If that converted cloud is not flagged dense, every point passed
  has finite coordinates (no NaN, no infinity); a cloud flagged dense is passed on as it
  is.
\<close>

theorem integrator_precondition_established:
  assumes "VoxbloxNode ext queue = Some node0"
    and "spin ext node0 msgs = Some node"
    and "Integrate T_G_C points_C colors \<in> set (events node)"
  shows "length points_C = length colors \<and>
    (\<exists>msg. points_C =
             map point_xyz (points (removeNaNFromPointCloud (fromROSMsg ext msg))) \<and>
           colors =
             map point_color (points (removeNaNFromPointCloud (fromROSMsg ext msg))) \<and>
           (\<not> cloud_is_dense (fromROSMsg ext msg) \<longrightarrow>
              (\<forall>p \<in> set points_C. point_isfinite p)))"
proof -
  have "\<exists>msg. points_C =
             map point_xyz (points (removeNaNFromPointCloud (fromROSMsg ext msg))) \<and>
           colors =
             map point_color (points (removeNaNFromPointCloud (fromROSMsg ext msg)))"
  proof (cases "Integrate T_G_C points_C colors \<in> set (events node0)")
    case False
    with assms(2,3) show ?thesis
      by (rule integrations_spin)
  next
    case True
    from assms(1) obtain node1 where
      s: "spin ext \<lparr>world_frame = ''world'',
            tsdf_map = TsdfMap_new \<lparr>config_tsdf_voxel_size = float_of_literal 0.02,
                                    config_tsdf_voxels_per_side = 16\<rparr>,
            events = []\<rparr> queue = Some node1"
      and p: "publishTsdfSurfacePoints node1 = Some node0"
      by (auto simp: VoxbloxNode_def split: option.splits)
    from p True have "Integrate T_G_C points_C colors \<in> set (events node1)"
      by (auto simp: publishTsdfSurfacePoints_eq)
    with s show ?thesis
      by (rule integrations_spin) simp
  qed
  then obtain msg where
    pts: "points_C = map point_xyz (points (removeNaNFromPointCloud (fromROSMsg ext msg)))"
    and cols: "colors =
      map point_color (points (removeNaNFromPointCloud (fromROSMsg ext msg)))"
    by blast
  have "\<forall>p \<in> set points_C. point_isfinite p" if "\<not> cloud_is_dense (fromROSMsg ext msg)"
    using removeNaNFromPointCloud_finite [OF that] by (auto simp: pts)
  with pts cols show ?thesis
    by auto
qed

theorem integrator_precondition_established_witness:
  "\<exists>node0 node.
      VoxbloxNode example_collaborators [] = Some node0 \<and>
      spin example_collaborators node0 [example_msg ''camera''] = Some node \<and>
      Integrate () [(Finite 1, Finite 2, Finite 3)]
        [\<lparr>color_r = 255, color_g = 0, color_b = 0, color_a = 255\<rparr>] \<in> set (events node) \<and>
      point_isfinite (Finite 1, Finite 2, Finite 3)"
proof -
  obtain node0 where n0: "VoxbloxNode example_collaborators [] = Some node0"
    and w0: "world_frame node0 = ''world''"
    by (simp add: VoxbloxNode_def publishTsdfSurfacePoints_eq Let_def)
  have l: "lookupTransform example_collaborators
      (frame_id (header (example_msg ''camera''))) (world_frame node0)
      (stamp (header (example_msg ''camera''))) =
     ([ROS_WARN ''Using latest TF transform instead of timestamp match.''], Some ())"
    using example_lookup_camera by (simp add: example_msg_def w0)
  obtain node where n: "spin example_collaborators node0 [example_msg ''camera''] = Some node"
    and e: "Integrate () [(Finite 1, Finite 2, Finite 3)]
        [\<lparr>color_r = 255, color_g = 0, color_b = 0, color_a = 255\<rparr>] \<in> set (events node)"
    by (simp add: insertPointcloudWithTf_integrated [OF l] example_filtered example_cloud_def
        point_xyz_def point_color_def)
  from integrator_precondition_established [OF n0 n e] n0 n e show ?thesis
    by (auto simp: point_isfinite_def)
qed

section \<open>The mutation of the incoming message\<close>

text \<open>
  C9. When the pose lookup succeeds, \<open>insertPointcloudWithTf\<close> leaves the message
  changed: every field named \<open>rgb\<close> has the datatype \<open>FLOAT32\<close>, every other field
  and every other part of the message is as before. The conversion to a PCL point cloud
  reads the changed message.
\<close>

theorem rgb_fields_overwritten:
  assumes "snd (lookupTransform ext (frame_id (header msg)) (world_frame node)
             (stamp (header msg))) = Some T_G_C"
  shows "\<exists>node' msg'.
           insertPointcloudWithTf ext node msg = Some (node', msg') \<and>
           msg' = msg\<lparr>msg_fields := msg_fields msg'\<rparr> \<and>
           length (msg_fields msg') = length (msg_fields msg) \<and>
           (\<forall>d < length (msg_fields msg).
              msg_fields msg' ! d =
                (if field_name (msg_fields msg ! d) = ''rgb''
                 then (msg_fields msg ! d)\<lparr>field_datatype := FLOAT32\<rparr>
                 else msg_fields msg ! d)) \<and>
           Integrate T_G_C
             (map point_xyz (points (removeNaNFromPointCloud (fromROSMsg ext msg'))))
             (map point_color (points (removeNaNFromPointCloud (fromROSMsg ext msg'))))
             \<in> set (events node')"
proof -
  obtain logged where l: "lookupTransform ext (frame_id (header msg)) (world_frame node)
      (stamp (header msg)) = (logged, Some T_G_C)"
    using assms by (cases "lookupTransform ext (frame_id (header msg)) (world_frame node)
      (stamp (header msg))") simp
  show ?thesis
    unfolding insertPointcloudWithTf_integrated [OF l]
    by (simp add: fix_rgb_field_def)
qed

theorem rgb_fields_overwritten_witness:
  "snd (lookupTransform example_collaborators (frame_id (header (example_msg ''camera'')))
          (world_frame example_node) (stamp (header (example_msg ''camera'')))) = Some () \<and>
   (\<exists>node' msg'.
      insertPointcloudWithTf example_collaborators example_node (example_msg ''camera'') =
        Some (node', msg') \<and>
      map field_datatype (msg_fields (example_msg ''camera'')) = [7, 6] \<and>
      map field_datatype (msg_fields msg') = [7, FLOAT32])"
proof -
  have l: "snd (lookupTransform example_collaborators
      (frame_id (header (example_msg ''camera''))) (world_frame example_node)
      (stamp (header (example_msg ''camera'')))) = Some ()"
    using example_lookup_camera by (simp add: example_msg_def example_node_def)
  from rgb_fields_overwritten [OF l] obtain node' msg' where
    r: "insertPointcloudWithTf example_collaborators example_node (example_msg ''camera'') =
        Some (node', msg')"
    and len: "length (msg_fields msg') = length (msg_fields (example_msg ''camera''))"
    and nth: "\<forall>d < length (msg_fields (example_msg ''camera'')).
       msg_fields msg' ! d =
         (if field_name (msg_fields (example_msg ''camera'') ! d) = ''rgb''
          then (msg_fields (example_msg ''camera'') ! d)\<lparr>field_datatype := FLOAT32\<rparr>
          else msg_fields (example_msg ''camera'') ! d)"
    by blast
  from len have len2: "length (msg_fields msg') = 2"
    by (simp add: example_msg_def)
  from nth have "msg_fields msg' ! 0 = msg_fields (example_msg ''camera'') ! 0"
    and "msg_fields msg' ! 1 = (msg_fields (example_msg ''camera'') ! 1)\<lparr>field_datatype := FLOAT32\<rparr>"
    by (simp_all add: example_msg_def)
  with len2 have "map field_datatype (msg_fields msg') = [7, FLOAT32]"
    by (cases "msg_fields msg'" rule: list.exhaust[case_product list.exhaust])
       (auto simp: example_msg_def length_Suc_conv)
  with r l show ?thesis
    by (simp add: example_msg_def)
qed

section \<open>Construction of the node\<close>

text \<open>
  C10, as stated, fails: with an observation queued when the constructor reaches
  \<open>ros::spinOnce\<close>, the observation is integrated and a surface point cloud published
  for it before the constructor publishes its own; the Store then holds a block and
  neither cloud is empty.
\<close>

theorem construction_after_queued_observation:
  "map_option calls (VoxbloxNode example_collaborators [example_msg ''camera'']) =
     Some [Integrate () [(Finite 1, Finite 2, Finite 3)]
             [\<lparr>color_r = 255, color_g = 0, color_b = 0, color_a = 255\<rparr>],
           Publish_XYZRGB \<lparr>cloud_frame_id = ''world'',
             points = [surface_point (scenario_voxel 0.01)], cloud_is_dense = True\<rparr>,
           Publish_XYZRGB \<lparr>cloud_frame_id = ''world'',
             points = [surface_point (scenario_voxel 0.01)], cloud_is_dense = True\<rparr>] \<and>
   map_option (getNumberOfAllocatedBlocks \<circ> tsdf_map)
     (VoxbloxNode example_collaborators [example_msg ''camera'']) = Some 1"
proof -
  have l: "lookupTransform example_collaborators
      (frame_id (header (example_msg ''camera''))) (world_frame example_node)
      (stamp (header (example_msg ''camera''))) =
     ([ROS_WARN ''Using latest TF transform instead of timestamp match.''], Some ())"
    using example_lookup_camera by (simp add: example_msg_def example_node_def)
  have n: "\<lparr>world_frame = ''world'',
      tsdf_map = TsdfMap_new \<lparr>config_tsdf_voxel_size = float_of_literal 0.02,
                              config_tsdf_voxels_per_side = 16\<rparr>,
      events = []\<rparr> = example_node"
    by (simp add: example_node_def TsdfMap_new_def)
  have b: "getNumberOfAllocatedBlocks (scenario_map 0.01) = 1"
    by (simp add: getNumberOfAllocatedBlocks_def scenario_map_def)
  show ?thesis
    unfolding VoxbloxNode_def Let_def n spin.simps insertPointcloudWithTf_integrated [OF l]
      example_integrated example_filtered
    by (simp add: publishTsdfSurfacePoints_eq scenario_surface_voxels [simplified] b [simplified]
        calls_def is_call_def example_cloud_def point_xyz_def point_color_def example_node_def)
qed

text \<open>
  C10, amended. At node construction \<open>ros::spinOnce\<close> first hands the observations
  already queued to the callback; then exactly one further surface extraction-and-publish
  cycle runs, over the Store as it is then, in the world frame. When no observation is
  queued, that Store is the freshly built empty Store and the one surface point cloud
  published is empty.
\<close>

theorem construction_publishes_surface_once:
  "(\<exists>node1.
      spin ext \<lparr>world_frame = ''world'',
                tsdf_map = \<lparr>tsdf_voxel_size = float_of_literal 0.02,
                             tsdf_voxels_per_side = 16, block_map = []\<rparr>,
                events = []\<rparr> queue = Some node1 \<and>
      VoxbloxNode ext queue =
        Some (node1\<lparr>events := events node1 @
                [Publish_XYZRGB \<lparr>cloud_frame_id = ''world'',
                   points = map surface_point (surface_voxels (tsdf_map node1)),
                   cloud_is_dense = True\<rparr>]\<rparr>)) \<and>
   VoxbloxNode ext [] =
     Some \<lparr>world_frame = ''world'',
           tsdf_map = \<lparr>tsdf_voxel_size = float_of_literal 0.02, tsdf_voxels_per_side = 16,
                        block_map = []\<rparr>,
           events = [Publish_XYZRGB \<lparr>cloud_frame_id = ''world'', points = [],
                       cloud_is_dense = True\<rparr>]\<rparr>"
proof -
  let ?node = "\<lparr>world_frame = ''world'',
      tsdf_map = \<lparr>tsdf_voxel_size = float_of_literal 0.02,
                   tsdf_voxels_per_side = 16, block_map = []\<rparr>,
      events = []\<rparr>"
  obtain node1 where s: "spin ext ?node queue = Some node1"
    and w: "world_frame node1 = world_frame ?node"
    using spin_total [of ext ?node queue] by auto
  then have "VoxbloxNode ext queue =
        Some (node1\<lparr>events := events node1 @
                [Publish_XYZRGB \<lparr>cloud_frame_id = ''world'',
                   points = map surface_point (surface_voxels (tsdf_map node1)),
                   cloud_is_dense = True\<rparr>]\<rparr>)"
    by (simp add: VoxbloxNode_def TsdfMap_new_def publishTsdfSurfacePoints_eq)
  moreover have "VoxbloxNode ext [] =
     Some \<lparr>world_frame = ''world'',
           tsdf_map = \<lparr>tsdf_voxel_size = float_of_literal 0.02, tsdf_voxels_per_side = 16,
                        block_map = []\<rparr>,
           events = [Publish_XYZRGB \<lparr>cloud_frame_id = ''world'', points = [],
                       cloud_is_dense = True\<rparr>]\<rparr>"
    by (simp add: VoxbloxNode_def publishTsdfSurfacePoints_eq TsdfMap_new_def
        surface_voxels_def all_voxels_def getAllAllocatedBlocks_def)
  ultimately show ?thesis
    using s by blast
qed

theorem construction_publishes_surface_once_witness:
  "map_option calls (VoxbloxNode example_collaborators []) =
     Some [Publish_XYZRGB \<lparr>cloud_frame_id = ''world'', points = [], cloud_is_dense = True\<rparr>] \<and>
   map_option (getNumberOfAllocatedBlocks \<circ> tsdf_map) (VoxbloxNode example_collaborators []) =
     Some 0"
  using construction_publishes_surface_once [of example_collaborators "[]", THEN conjunct2]
  by (simp add: calls_def is_call_def getNumberOfAllocatedBlocks_def)

end
